theory Spec2Isabelle
  imports Complex_Main "HOL-Library.Multiset"
begin

section \<open>JavaScript values used by the order page\<close>

subsection \<open>Numbers\<close>

text \<open>
  A TypeScript \<^verbatim>\<open>number\<close> is an IEEE-754 binary64 value. A finite value is
  represented by the rational it denotes; the two zeros are identified, as \<^verbatim>\<open>===\<close>,
  \<^verbatim>\<open>JSON.stringify\<close> and \<^verbatim>\<open>toFixed\<close> do not tell them apart. Every arithmetic
  result is rounded by \<open>to_number\<close>: to the nearest value with a 53-bit significand, ties
  to the even significand, gradual underflow below \<open>2\<^sup>-\<^sup>1\<^sup>0\<^sup>2\<^sup>2\<close> and overflow to an
  infinity from \<open>2\<^sup>1\<^sup>0\<^sup>2\<^sup>4\<close> on. The numbers of the page are the values of \<open>to_number\<close>,
  the infinities and \<^verbatim>\<open>NaN\<close>; a number literal such as \<^verbatim>\<open>0.1\<close> is \<open>to_number (1 / 10)\<close>.
\<close>

datatype number = NaN | PosInfinity | NegInfinity | Finite rat

function bit_length :: "int \<Rightarrow> int" where
  "bit_length n = (if n \<le> 0 then 0 else 1 + bit_length (n div 2))"
  by pat_completeness auto
termination
  by (relation "measure nat") auto

declare bit_length.simps [simp del]

definition pow2 :: "int \<Rightarrow> rat" where
  "pow2 e = (if 0 \<le> e then 2 ^ nat e else 1 / 2 ^ nat (- e))"

definition pow10 :: "int \<Rightarrow> rat" where
  "pow10 e = (if 0 \<le> e then 10 ^ nat e else 1 / 10 ^ nat (- e))"

text \<open>\<open>ilog2 x\<close> is the binary exponent \<open>\<lfloor>log\<^sub>2 x\<rfloor>\<close> of a positive \<open>x\<close>.\<close>

definition ilog2 :: "rat \<Rightarrow> int" where
  "ilog2 x = (if 1 \<le> x then bit_length \<lfloor>x\<rfloor> - 1 else - bit_length (\<lceil>1 / x\<rceil> - 1))"

definition round_ties_even :: "rat \<Rightarrow> int" where
  "round_ties_even s =
     (let f = \<lfloor>s\<rfloor>; d = s - of_int f
      in if d < 1 / 2 then f else if 1 / 2 < d then f + 1
         else if even f then f else f + 1)"

definition to_number :: "rat \<Rightarrow> number" where
  "to_number x =
     (if x = 0 then Finite 0
      else
        let q = max (ilog2 \<bar>x\<bar> - 52) (- 1074);
            r = of_int (round_ties_even (x / pow2 q)) * pow2 q
        in if 1024 \<le> ilog2 \<bar>r\<bar> then (if 0 < x then PosInfinity else NegInfinity)
           else Finite r)"

text \<open>The operators \<^verbatim>\<open>+\<close>, \<^verbatim>\<open>*\<close> and \<^verbatim>\<open><\<close> on numbers.\<close>

fun num_add :: "number \<Rightarrow> number \<Rightarrow> number" where
  "num_add (Finite a) (Finite b) = to_number (a + b)"
| "num_add NaN _ = NaN"
| "num_add _ NaN = NaN"
| "num_add PosInfinity NegInfinity = NaN"
| "num_add NegInfinity PosInfinity = NaN"
| "num_add PosInfinity _ = PosInfinity"
| "num_add _ PosInfinity = PosInfinity"
| "num_add NegInfinity _ = NegInfinity"
| "num_add _ NegInfinity = NegInfinity"

definition num_sign :: "number \<Rightarrow> int" where
  "num_sign x = (case x of NaN \<Rightarrow> 0 | PosInfinity \<Rightarrow> 1 | NegInfinity \<Rightarrow> - 1
                 | Finite a \<Rightarrow> (if a = 0 then 0 else if 0 < a then 1 else - 1))"

fun num_mul :: "number \<Rightarrow> number \<Rightarrow> number" where
  "num_mul (Finite a) (Finite b) = to_number (a * b)"
| "num_mul NaN _ = NaN"
| "num_mul _ NaN = NaN"
| "num_mul x y =
     (if num_sign x * num_sign y = 0 then NaN
      else if 0 < num_sign x * num_sign y then PosInfinity else NegInfinity)"

fun num_lt :: "number \<Rightarrow> number \<Rightarrow> bool" where
  "num_lt (Finite a) (Finite b) = (a < b)"
| "num_lt NaN _ = False"
| "num_lt _ NaN = False"
| "num_lt NegInfinity y = (y \<noteq> NegInfinity)"
| "num_lt x PosInfinity = (x \<noteq> PosInfinity)"
| "num_lt _ _ = False"

subsection \<open>Number to string\<close>

text \<open>
  \<^verbatim>\<open>Number::toString\<close> of ECMA-262 in radix 10: the digits \<open>s\<close> (\<open>k\<close> of them, as few as
  possible) and the decimal exponent \<open>n\<close> are chosen so that \<open>s \<times> 10\<^sup>n\<^sup>-\<^sup>k\<close> rounds to the
  number; among several \<open>s\<close> the one closest to the number is taken. Seventeen digits
  always suffice, so the search over \<open>k\<close> ends with a candidate.
\<close>

function digits_of :: "int \<Rightarrow> string" where
  "digits_of n =
     (if n < 10 then [''0123456789'' ! nat n]
      else digits_of (n div 10) @ [''0123456789'' ! nat (n mod 10)])"
  by pat_completeness auto
termination
  by (relation "measure nat") auto

declare digits_of.simps [simp del]

definition ilog10 :: "rat \<Rightarrow> int" where
  "ilog10 x =
     (let est = (ilog2 x * 30103) div 100000
      in if pow10 (est + 1) \<le> x then est + 1 else if pow10 est \<le> x then est else est - 1)"

definition digit_candidates :: "rat \<Rightarrow> int \<Rightarrow> (int \<times> int) list" where
  "digit_candidates x k =
     (let n = ilog10 x + 1;
          lo = \<lfloor>x / pow10 (n - k)\<rfloor>;
          up = (if lo + 1 < 10 ^ nat k then (lo + 1, n) else (10 ^ nat (k - 1), n + 1))
      in filter (\<lambda>(s, n). to_number (of_int s * pow10 (n - k)) = Finite x) [(lo, n), up])"

definition closest_candidate :: "rat \<Rightarrow> int \<Rightarrow> (int \<times> int) list \<Rightarrow> int \<times> int" where
  "closest_candidate x k cs =
     (case cs of
        [c] \<Rightarrow> c
      | [(s1, n1), (s2, n2)] \<Rightarrow>
          (let d1 = \<bar>of_int s1 * pow10 (n1 - k) - x\<bar>; d2 = \<bar>of_int s2 * pow10 (n2 - k) - x\<bar>
           in if d1 < d2 \<or> (d1 = d2 \<and> even s1) then (s1, n1) else (s2, n2))
      | _ \<Rightarrow> (0, 0))"

fun shortest_digits :: "rat \<Rightarrow> int list \<Rightarrow> int \<times> int \<times> int" where
  "shortest_digits x [] = (17, \<lfloor>x / pow10 (ilog10 x - 16)\<rfloor>, ilog10 x + 1)"
| "shortest_digits x (k # ks) =
     (case digit_candidates x k of
        [] \<Rightarrow> shortest_digits x ks
      | cs \<Rightarrow> (k, closest_candidate x k cs))"

definition positive_toString :: "rat \<Rightarrow> string" where
  "positive_toString x =
     (let (k, s, n) = shortest_digits x [1, 2, 3, 4, 5, 6, 7, 8, 9, 10, 11, 12, 13, 14, 15, 16, 17];
          ds = digits_of s;
          e = n - 1
      in if k \<le> n \<and> n \<le> 21 then ds @ replicate (nat (n - k)) CHR ''0''
         else if 0 < n \<and> n \<le> 21 then take (nat n) ds @ ''.'' @ drop (nat n) ds
         else if - 6 < n \<and> n \<le> 0 then ''0.'' @ replicate (nat (- n)) CHR ''0'' @ ds
         else (if k = 1 then ds else take 1 ds @ ''.'' @ drop 1 ds)
              @ ''e'' @ (if 0 \<le> e then ''+'' else ''-'') @ digits_of \<bar>e\<bar>)"

definition Number_toString :: "number \<Rightarrow> string" where
  "Number_toString x =
     (case x of
        NaN \<Rightarrow> ''NaN''
      | PosInfinity \<Rightarrow> ''Infinity''
      | NegInfinity \<Rightarrow> ''-Infinity''
      | Finite a \<Rightarrow>
          (if a = 0 then ''0''
           else if a < 0 then ''-'' @ positive_toString (- a)
           else positive_toString a))"

subsection \<open>Strings, \<^verbatim>\<open>parseInt\<close> and \<^verbatim>\<open>trim\<close>\<close>

text \<open>
  A string is a list of code units; the code units modelled are \<open>U+0000\<close> to \<open>U+00FF\<close>.
  \<open>code_unit c\<close> is the numeric value of a code unit.
\<close>

definition code_unit :: "char \<Rightarrow> int" where
  "code_unit c = of_char c"

definition is_white_space :: "char \<Rightarrow> bool" where
  "is_white_space c = (code_unit c \<in> {9, 10, 11, 12, 13, 32, 160})"

definition trim :: "string \<Rightarrow> string" where
  "trim s = rev (dropWhile is_white_space (rev (dropWhile is_white_space s)))"

text \<open>The value of a code unit as a digit: \<open>0\<close>-\<open>9\<close>, \<open>a\<close>-\<open>z\<close>, \<open>A\<close>-\<open>Z\<close>.\<close>

definition digit_value :: "char \<Rightarrow> int option" where
  "digit_value c =
     (let u = code_unit c
      in if 48 \<le> u \<and> u \<le> 57 then Some (u - 48)
         else if 97 \<le> u \<and> u \<le> 122 then Some (u - 87)
         else if 65 \<le> u \<and> u \<le> 90 then Some (u - 55)
         else None)"

definition is_radix_digit :: "int \<Rightarrow> char \<Rightarrow> bool" where
  "is_radix_digit R c = (case digit_value c of None \<Rightarrow> False | Some d \<Rightarrow> d < R)"

text \<open>
  \<^verbatim>\<open>parseInt(string)\<close> with no radix argument: leading white space is skipped, a sign is
  read, a \<^verbatim>\<open>0x\<close> or \<^verbatim>\<open>0X\<close> prefix selects radix 16, and the longest run of digits
  is converted; no digit at all gives \<^verbatim>\<open>NaN\<close>. Whatever follows the digits is ignored.
  The integer read is rounded to a number (beyond 20 significant digits an engine may
  round the digits first; the table numbers of the page are far below that).
\<close>

definition parseInt :: "string \<Rightarrow> number" where
  "parseInt inputString =
     (let S = dropWhile is_white_space inputString;
          sign = (case S of c # _ \<Rightarrow> if c = CHR ''-'' then - 1 else 1 | [] \<Rightarrow> (1 :: int));
          S1 = (case S of c # rest \<Rightarrow> if c = CHR ''+'' \<or> c = CHR ''-'' then rest else S | [] \<Rightarrow> S);
          stripPrefix = (case S1 of a # b # _ \<Rightarrow> a = CHR ''0'' \<and> (b = CHR ''x'' \<or> b = CHR ''X'')
                         | _ \<Rightarrow> False);
          R = (if stripPrefix then 16 else 10);
          S2 = (if stripPrefix then drop 2 S1 else S1);
          Z = takeWhile (is_radix_digit R) S2;
          mathInt = foldl (\<lambda>acc c. acc * R + (case digit_value c of Some d \<Rightarrow> d | None \<Rightarrow> 0)) 0 Z
      in if Z = [] then NaN else to_number (of_int (sign * mathInt)))"

subsection \<open>\<^verbatim>\<open>JSON.stringify\<close>\<close>

definition hex_digit :: "int \<Rightarrow> char" where
  "hex_digit d = ''0123456789abcdef'' ! nat d"

text \<open>\<^verbatim>\<open>QuoteJSONString\<close>: the escapes of ECMA-262, everything else as it is.\<close>

definition json_escape :: "char \<Rightarrow> string" where
  "json_escape c =
     (let u = code_unit c
      in if u = 8 then [CHR 0x5C, CHR ''b'']
         else if u = 9 then [CHR 0x5C, CHR ''t'']
         else if u = 10 then [CHR 0x5C, CHR ''n'']
         else if u = 12 then [CHR 0x5C, CHR ''f'']
         else if u = 13 then [CHR 0x5C, CHR ''r'']
         else if u = 34 then [CHR 0x5C, CHR 0x22]
         else if u = 92 then [CHR 0x5C, CHR 0x5C]
         else if u < 32 then [CHR 0x5C, CHR ''u'', CHR ''0'', CHR ''0'', hex_digit (u div 16), hex_digit (u mod 16)]
         else [c])"

definition QuoteJSONString :: "string \<Rightarrow> string" where
  "QuoteJSONString s = [CHR 0x22] @ concat (map json_escape s) @ [CHR 0x22]"

text \<open>A number is written by \<open>Number_toString\<close> when it is finite and as \<^verbatim>\<open>null\<close> otherwise.\<close>

definition json_number :: "number \<Rightarrow> string" where
  "json_number x = (case x of Finite a \<Rightarrow> Number_toString x | _ \<Rightarrow> ''null'')"

fun join :: "string \<Rightarrow> string list \<Rightarrow> string" where
  "join sep [] = []"
| "join sep [x] = x"
| "join sep (x # y # ys) = x @ sep @ join sep (y # ys)"

section \<open>Data model\<close>

text \<open>
  The interfaces of \<^verbatim>\<open>page.tsx\<close>. Field names carry the interface as a prefix where two
  interfaces share a name (\<^verbatim>\<open>id\<close>, \<^verbatim>\<open>name\<close>, \<^verbatim>\<open>price\<close>). An optional field is an
  \<open>option\<close>. \<open>CartItem\<close> extends \<open>MenuItem\<close>, as in the source.
\<close>

record SelectedOption =
  option_id :: string
  option_name :: string
  option_price :: number

record OptionSpec =
  spec_id :: string
  spec_name :: string
  isRequired :: bool
  maxSelections :: "number option"
  spec_price :: number

record MenuItem =
  item_id :: string
  item_name :: string
  price :: number
  category :: string
  imageUrl :: "string option"
  options :: "OptionSpec list option"

record CartItem = MenuItem +
  quantity :: number
  selectedOptions :: "SelectedOption list"

datatype order_status = pending | completed | cancelled

datatype payment_method = cash | gcash

text \<open>
  \<^verbatim>\<open>Order.tableNumber\<close> is declared a number, but the documents of the collection are cast
  to \<^verbatim>\<open>Order\<close> unchecked and \<^verbatim>\<open>updateTableNumberInFirestore\<close> writes a string there, so
  the field holds either.
\<close>

datatype field_value = NumberValue number | StringValue string

record Order =
  order_id :: "string option"
  deviceId :: string
  order_tableNumber :: field_value
  items :: "CartItem list"
  total :: number
  status :: order_status
  createdAt :: number
  paymentMethod :: "payment_method option"

text \<open>
  \<^verbatim>\<open>JSON.stringify\<close> of a \<^verbatim>\<open>SelectedOption[]\<close>. The objects are built with the keys
  \<^verbatim>\<open>id\<close>, \<^verbatim>\<open>name\<close>, \<^verbatim>\<open>price\<close> in this order (the checkbox handler of the menu grid).
\<close>

definition stringify_option :: "SelectedOption \<Rightarrow> string" where
  "stringify_option opt =
     ''{'' @ QuoteJSONString ''id'' @ '':'' @ QuoteJSONString (option_id opt) @ '','' @
     QuoteJSONString ''name'' @ '':'' @ QuoteJSONString (option_name opt) @ '','' @
     QuoteJSONString ''price'' @ '':'' @ json_number (option_price opt) @ ''}''"

definition JSON_stringify :: "SelectedOption list \<Rightarrow> string" where
  "JSON_stringify opts = ''['' @ join '','' (map stringify_option opts) @ '']''"

section \<open>Cart reconciler\<close>

text \<open>
  The test that \<^verbatim>\<open>handlePlaceOrder\<close> and \<^verbatim>\<open>handleUpdateQuantity\<close> apply to a cart line:
  the same item id and the same serialized options.
\<close>

definition same_line :: "string \<Rightarrow> SelectedOption list \<Rightarrow> CartItem \<Rightarrow> bool" where
  "same_line itemId selOpts cartItem =
     (item_id cartItem = itemId \<and>
      JSON_stringify (selectedOptions cartItem) = JSON_stringify selOpts)"

text \<open>The key of a cart line that this test compares.\<close>

definition line_key :: "CartItem \<Rightarrow> string \<times> string" where
  "line_key cartItem = (item_id cartItem, JSON_stringify (selectedOptions cartItem))"

text \<open>The object \<^verbatim>\<open>{...item, quantity: 1, selectedOptions}\<close>.\<close>

definition new_line :: "MenuItem \<Rightarrow> SelectedOption list \<Rightarrow> CartItem" where
  "new_line item selOpts =
     \<lparr>item_id = item_id item, item_name = item_name item, price = price item,
      category = category item, imageUrl = imageUrl item, options = options item,
      quantity = Finite 1, selectedOptions = selOpts\<rparr>"

text \<open>The updater that \<^verbatim>\<open>handlePlaceOrder\<close> passes to \<^verbatim>\<open>setCart\<close>.\<close>

definition handlePlaceOrder :: "MenuItem \<Rightarrow> SelectedOption list \<Rightarrow> CartItem list \<Rightarrow> CartItem list" where
  "handlePlaceOrder item selOpts currentCart =
     (case find (same_line (item_id item) selOpts) currentCart of
        Some existingItem \<Rightarrow>
          map (\<lambda>cartItem.
                 if same_line (item_id item) selOpts cartItem
                 then cartItem\<lparr>quantity := num_add (quantity cartItem) (Finite 1)\<rparr>
                 else cartItem)
              currentCart
      | None \<Rightarrow> currentCart @ [new_line item selOpts])"

text \<open>The updater that \<^verbatim>\<open>handleUpdateQuantity\<close> passes to \<^verbatim>\<open>setCart\<close>.\<close>

definition handleUpdateQuantity ::
  "string \<Rightarrow> number \<Rightarrow> SelectedOption list \<Rightarrow> CartItem list \<Rightarrow> CartItem list" where
  "handleUpdateQuantity itemId newQuantity selOpts currentCart =
     (if num_lt newQuantity (Finite 1)
      then filter (\<lambda>item. \<not> same_line itemId selOpts item) currentCart
      else map (\<lambda>item. if same_line itemId selOpts item then item\<lparr>quantity := newQuantity\<rparr> else item)
             currentCart)"

text \<open>\<^verbatim>\<open>cartTotal\<close>: the \<^verbatim>\<open>reduce\<close> over the cart, from 0.\<close>

definition cartTotal :: "CartItem list \<Rightarrow> number" where
  "cartTotal cart = foldl (\<lambda>total item. num_add total (num_mul (price item) (quantity item))) (Finite 0) cart"

section \<open>Page state, browser storage and the orders collection\<close>

text \<open>
  A call that the page makes on the \<^verbatim>\<open>orders\<close> collection: \<^verbatim>\<open>addDoc\<close> with the order, or
  \<^verbatim>\<open>updateDoc\<close> on the document of an id with the object \<^verbatim>\<open>{tableNumber: v}\<close>.
\<close>

datatype firestore_write = AddDoc Order | UpdateDoc string field_value

text \<open>
  The state that the handlers read and write: the React state of \<^verbatim>\<open>MenuContent\<close>
  (\<open>cart\<close> to \<open>showTableModal\<close>), \<^verbatim>\<open>localStorage\<close>, the documents of the \<^verbatim>\<open>orders\<close>
  collection with their ids, the calls issued on the collection so far, the arguments of
  the calls of \<^verbatim>\<open>console.error\<close> (message and error) and those of \<^verbatim>\<open>alert\<close>.
\<close>

record world =
  cart :: "CartItem list"
  isSubmitting :: bool
  orders :: "Order list"
  isLoadingOrders :: bool
  tableNumber :: string
  showTableModal :: bool
  localStorage :: "string \<rightharpoonup> string"
  orders_collection :: "(string \<times> Order) list"
  firestore_writes :: "firestore_write list"
  console_error :: "(string \<times> string) list"
  alerts :: "string list"

text \<open>The state after the \<^verbatim>\<open>useState\<close> initialisers, for a given storage and collection.\<close>

definition initial_world :: "(string \<rightharpoonup> string) \<Rightarrow> (string \<times> Order) list \<Rightarrow> world" where
  "initial_world storage docs =
     \<lparr>cart = [], isSubmitting = False, orders = [], isLoadingOrders = True,
      tableNumber = [], showTableModal = True, localStorage = storage,
      orders_collection = docs, firestore_writes = [], console_error = [], alerts = []\<rparr>"

text \<open>
  What the surroundings answer during one handler: the identifier \<^verbatim>\<open>uuidv4()\<close> returns,
  the clock \<^verbatim>\<open>Date.now()\<close>, the outcome of \<^verbatim>\<open>addDoc\<close> (\<open>Inr\<close> the new document id,
  \<open>Inl\<close> the error), the errors of \<^verbatim>\<open>getDocs\<close> and of \<^verbatim>\<open>updateDoc\<close> on a document, and
  the time at which the \<^verbatim>\<open>updateDoc\<close> on a document settles.
\<close>

record env =
  uuidv4 :: string
  now :: number
  addDoc_result :: "string + string"
  getDocs_error :: "string option"
  updateDoc_error :: "string \<Rightarrow> string option"
  updateDoc_settled :: "string \<Rightarrow> nat"

definition getDeviceId :: "env \<Rightarrow> world \<Rightarrow> string \<times> world" where
  "getDeviceId e w =
     (let fresh = (uuidv4 e, w\<lparr>localStorage := (localStorage w)(''device_id'' \<mapsto> uuidv4 e)\<rparr>)
      in case localStorage w ''device_id'' of
           None \<Rightarrow> fresh
         | Some stored \<Rightarrow> if stored = [] then fresh else (stored, w))"

subsection \<open>Table number\<close>

text \<open>
  The effect of \<^verbatim>\<open>MenuContent\<close> on the search parameters: \<open>tableFromUrl\<close> is
  \<^verbatim>\<open>searchParams.get("table")\<close>, \<open>None\<close> for \<^verbatim>\<open>null\<close>. Both conditions are
  truthiness tests of a \<^verbatim>\<open>string | null\<close>: \<^verbatim>\<open>null\<close> and the empty string fail them.
\<close>

definition tableEffect :: "string option \<Rightarrow> world \<Rightarrow> world" where
  "tableEffect tableFromUrl w =
     (let savedTableNumber = localStorage w ''table_number'';
          otherwise =
            (case savedTableNumber of
               None \<Rightarrow> w
             | Some saved \<Rightarrow>
                 if saved \<noteq> [] then w\<lparr>tableNumber := saved, showTableModal := False\<rparr> else w)
      in case tableFromUrl of
           None \<Rightarrow> otherwise
         | Some fromUrl \<Rightarrow>
             if fromUrl \<noteq> []
             then w\<lparr>tableNumber := fromUrl,
                    localStorage := (localStorage w)(''table_number'' \<mapsto> fromUrl),
                    showTableModal := False\<rparr>
             else otherwise)"

text \<open>
  \<^verbatim>\<open>updateTableNumberInFirestore\<close>: the query selects the documents of the device with
  status pending; one \<^verbatim>\<open>updateDoc\<close> is started for each, and \<^verbatim>\<open>Promise.all\<close> rejects
  when one of them does, with the error of the rejection that comes first in time (of
  two at the same time, the one earlier in the snapshot); the other updates have been
  started all the same and are applied.
\<close>

definition pendingOrdersQuery :: "string \<Rightarrow> (string \<times> Order) list \<Rightarrow> (string \<times> Order) list" where
  "pendingOrdersQuery dev docs = filter (\<lambda>(i, d). deviceId d = dev \<and> status d = pending) docs"

definition apply_update :: "env \<Rightarrow> string \<Rightarrow> field_value \<Rightarrow> (string \<times> Order) list \<Rightarrow> (string \<times> Order) list" where
  "apply_update e docId v docs =
     (case updateDoc_error e docId of
        Some err \<Rightarrow> docs
      | None \<Rightarrow> map (\<lambda>(i, d). if i = docId then (i, d\<lparr>order_tableNumber := v\<rparr>) else (i, d)) docs)"

definition updateTableNumberInFirestore :: "env \<Rightarrow> string \<Rightarrow> string \<Rightarrow> world \<Rightarrow> (string + unit) \<times> world" where
  "updateTableNumberInFirestore e newTableNumber dev w =
     (case getDocs_error e of
        Some err \<Rightarrow>
          (Inl err, w\<lparr>console_error := console_error w @ [(''Error updating table numbers:'', err)]\<rparr>)
      | None \<Rightarrow>
          let snapshot = pendingOrdersQuery dev (orders_collection w);
              ids = map fst snapshot;
              w1 = w\<lparr>firestore_writes :=
                        firestore_writes w @ map (\<lambda>i. UpdateDoc i (StringValue newTableNumber)) ids,
                     orders_collection :=
                        foldl (\<lambda>docs i. apply_update e i (StringValue newTableNumber) docs)
                          (orders_collection w) ids\<rparr>
          in case List.map_filter (\<lambda>i. map_option (Pair i) (updateDoc_error e i)) ids of
               [] \<Rightarrow> (Inr (), w1)
             | rejection # rejections \<Rightarrow>
                 let err = snd (arg_min_list (\<lambda>(i, err). updateDoc_settled e i) (rejection # rejections))
                 in (Inl err,
                     w1\<lparr>console_error := console_error w1 @ [(''Error updating table numbers:'', err)]\<rparr>))"

definition handleTableNumberSubmit :: "env \<Rightarrow> world \<Rightarrow> world" where
  "handleTableNumberSubmit e w =
     (if trim (tableNumber w) = [] then w
      else
        let w1 = w\<lparr>localStorage := (localStorage w)(''table_number'' \<mapsto> tableNumber w)\<rparr>;
            (dev, w2) = getDeviceId e w1;
            (r, w3) = updateTableNumberInFirestore e (tableNumber w) dev w2
        in case r of
             Inr _ \<Rightarrow> w3\<lparr>showTableModal := False\<rparr>
           | Inl err \<Rightarrow>
               w3\<lparr>console_error := console_error w3 @ [(''Error updating table number:'', err)],
                  alerts := alerts w3 @ [''Failed to update table number. Please try again.'']\<rparr>)"

subsection \<open>Order stream and order submission\<close>

text \<open>
  The listener of \<^verbatim>\<open>onSnapshot\<close>, called with the documents of a snapshot: each becomes
  \<^verbatim>\<open>{id: doc.id, ...doc.data()}\<close>, where an \<^verbatim>\<open>id\<close> key of the data would replace the
  document id.
\<close>

definition onSnapshot_next :: "(string \<times> Order) list \<Rightarrow> world \<Rightarrow> world" where
  "onSnapshot_next docs w =
     w\<lparr>orders := map (\<lambda>(i, d). d\<lparr>order_id := (case order_id d of None \<Rightarrow> Some i | Some x \<Rightarrow> Some x)\<rparr>) docs,
       isLoadingOrders := False\<rparr>"

text \<open>
  \<^verbatim>\<open>saveOrder\<close>. The call of \<^verbatim>\<open>addDoc\<close> is recorded; a resolved call has stored the order
  under the new id. \<open>between\<close> is what else runs on the page while the handler is
  suspended in \<^verbatim>\<open>await\<close> (a snapshot delivered to the listener, clicks of the user);
  \<open>id\<close> when nothing does. The \<^verbatim>\<open>catch\<close> logs and throws again.
\<close>

definition saveOrder :: "env \<Rightarrow> (world \<Rightarrow> world) \<Rightarrow> Order \<Rightarrow> world \<Rightarrow> (string + string) \<times> world" where
  "saveOrder e between order w =
     (let w1 = w\<lparr>firestore_writes := firestore_writes w @ [AddDoc order]\<rparr>
      in case addDoc_result e of
           Inr orderId \<Rightarrow>
             (Inr orderId, between (w1\<lparr>orders_collection := orders_collection w1 @ [(orderId, order)]\<rparr>))
         | Inl err \<Rightarrow>
             (let w2 = between w1
              in (Inl err, w2\<lparr>console_error := console_error w2 @ [(''Error saving order: '', err)]\<rparr>)))"

text \<open>The object \<^verbatim>\<open>newOrder\<close> of \<^verbatim>\<open>handleOrderNow\<close>, for the device id \<open>dev\<close>.\<close>

definition newOrder :: "env \<Rightarrow> string \<Rightarrow> world \<Rightarrow> Order" where
  "newOrder e dev w =
     \<lparr>order_id = None, deviceId = dev,
      order_tableNumber = NumberValue (parseInt (tableNumber w)),
      items = cart w, total = cartTotal (cart w), status = pending,
      createdAt = now e, paymentMethod = Some cash\<rparr>"

text \<open>
  The updater that \<^verbatim>\<open>handleOrderNow\<close> passes to \<^verbatim>\<open>setOrders\<close>, and the handler. The
  handler reads \<^verbatim>\<open>cart\<close>, \<^verbatim>\<open>cartTotal\<close>, \<^verbatim>\<open>isSubmitting\<close> and \<^verbatim>\<open>tableNumber\<close> of the render
  that created it; here that render is the state \<open>w\<close> of the call. The state setters
  after the \<^verbatim>\<open>await\<close> act on the state \<open>w2\<close> found at resumption.
\<close>

definition merge_order :: "Order \<Rightarrow> string \<Rightarrow> Order list \<Rightarrow> Order list" where
  "merge_order saved orderId prevOrders =
     (if list_ex (\<lambda>order. order_id order = Some orderId) prevOrders then prevOrders
      else saved\<lparr>order_id := Some orderId\<rparr> # prevOrders)"

definition handleOrderNow :: "env \<Rightarrow> (world \<Rightarrow> world) \<Rightarrow> world \<Rightarrow> world" where
  "handleOrderNow e between w =
     (if cart w = [] \<or> isSubmitting w \<or> tableNumber w = [] then w
      else
        let (dev, w1) = getDeviceId e (w\<lparr>isSubmitting := True\<rparr>);
            order = newOrder e dev w;
            (r, w2) = saveOrder e between order w1;
            w3 = (case r of
                    Inr orderId \<Rightarrow> w2\<lparr>orders := merge_order order orderId (orders w2), cart := []\<rparr>
                  | Inl err \<Rightarrow> w2\<lparr>console_error := console_error w2 @ [(''Error placing order:'', err)]\<rparr>)
        in w3\<lparr>isSubmitting := False\<rparr>)"

subsection \<open>The states in which \<^verbatim>\<open>handleOrderNow\<close> is suspended\<close>

text \<open>
  The device id that \<^verbatim>\<open>getDeviceId()\<close> returns in a state, and the state that the rest
  of the page sees while \<^verbatim>\<open>handleOrderNow\<close> waits for \<^verbatim>\<open>addDoc\<close>: the submission flag is
  set and the call is issued; when the call resolves with an id, the order is stored
  under it.
\<close>

definition device_of :: "env \<Rightarrow> world \<Rightarrow> string" where
  "device_of e w = fst (getDeviceId e w)"

definition submitted :: "env \<Rightarrow> string \<Rightarrow> world \<Rightarrow> world" where
  "submitted e orderId w =
     (let (dev, w1) = getDeviceId e (w\<lparr>isSubmitting := True\<rparr>)
      in w1\<lparr>firestore_writes := firestore_writes w1 @ [AddDoc (newOrder e dev w)],
            orders_collection := orders_collection w1 @ [(orderId, newOrder e dev w)]\<rparr>)"

definition rejected :: "env \<Rightarrow> world \<Rightarrow> world" where
  "rejected e w =
     (let (dev, w1) = getDeviceId e (w\<lparr>isSubmitting := True\<rparr>)
      in w1\<lparr>firestore_writes := firestore_writes w1 @ [AddDoc (newOrder e dev w)]\<rparr>)"

section \<open>The specification's formulas\<close>

text \<open>
  The total as the specification defines it: the sum over the cart lines of
  \<open>(item.price + sum(option.price for option in selectedOptions)) * quantity\<close>.
\<close>

definition spec_line_total :: "CartItem \<Rightarrow> number" where
  "spec_line_total item =
     num_mul (num_add (price item) (foldl num_add (Finite 0) (map option_price (selectedOptions item))))
       (quantity item)"

definition spec_computeTotal :: "CartItem list \<Rightarrow> number" where
  "spec_computeTotal c = foldl num_add (Finite 0) (map spec_line_total c)"

text \<open>
  The values that are numbers: \<^verbatim>\<open>NaN\<close>, the infinities, and the rationals that rounding
  leaves as they are.
\<close>

definition is_number :: "number \<Rightarrow> bool" where
  "is_number x = (case x of Finite a \<Rightarrow> to_number a = Finite a | _ \<Rightarrow> True)"

text \<open>
  The specification's \<open>resolveInitialTable(urlParam?, stored?)\<close>: the table number and the
  stored value afterwards, a present URL parameter taking precedence.
\<close>

definition spec_resolveInitialTable :: "string option \<Rightarrow> string option \<Rightarrow> string \<times> string option" where
  "spec_resolveInitialTable urlParam stored =
     (case urlParam of
        Some u \<Rightarrow> (u, Some u)
      | None \<Rightarrow> (case stored of Some s \<Rightarrow> (s, Some s) | None \<Rightarrow> ([], None)))"

text \<open>A numeric table string: decimal digits only, at least one.\<close>

definition spec_numeric :: "string \<Rightarrow> bool" where
  "spec_numeric t = (t \<noteq> [] \<and> list_all (is_radix_digit 10) t)"

text \<open>
  Whether a string, after leading white space and one sign, begins with a decimal digit.
\<close>

definition begins_with_digit :: "string \<Rightarrow> bool" where
  "begins_with_digit t =
     (let S = dropWhile is_white_space t;
          S1 = (case S of c # rest \<Rightarrow> if c = CHR ''+'' \<or> c = CHR ''-'' then rest else S | [] \<Rightarrow> S)
      in case S1 of c # _ \<Rightarrow> is_radix_digit 10 c | [] \<Rightarrow> False)"

text \<open>
  Carts on which the arithmetic of \<open>cartTotal\<close> is exact: prices and quantities are
  integers, and the absolute line totals sum to less than \<open>2\<^sup>5\<^sup>3\<close>.
\<close>

definition is_integer :: "number \<Rightarrow> bool" where
  "is_integer x = (case x of Finite a \<Rightarrow> a = of_int \<lfloor>a\<rfloor> | _ \<Rightarrow> False)"

definition int_of :: "number \<Rightarrow> int" where
  "int_of x = (case x of Finite a \<Rightarrow> \<lfloor>a\<rfloor> | _ \<Rightarrow> 0)"

definition exact_cart :: "CartItem list \<Rightarrow> bool" where
  "exact_cart c =
     (list_all (\<lambda>item. is_integer (price item) \<and> is_integer (quantity item)) c \<and>
      sum_list (map (\<lambda>item. \<bar>int_of (price item) * int_of (quantity item)\<bar>) c) < 2 ^ 53)"

text \<open>Whether a call on the collection is an \<^verbatim>\<open>updateDoc\<close> on the document of an id.\<close>

definition writes_to :: "string \<Rightarrow> firestore_write \<Rightarrow> bool" where
  "writes_to i wr = (case wr of UpdateDoc j v \<Rightarrow> j = i | AddDoc order \<Rightarrow> False)"

text \<open>
  The documents after the updates of the documents with an id in \<open>S\<close> that did not fail.
\<close>

definition updated_docs :: "env \<Rightarrow> string set \<Rightarrow> field_value \<Rightarrow> (string \<times> Order) list \<Rightarrow> (string \<times> Order) list" where
  "updated_docs e S v docs =
     map (\<lambda>(i, d). if i \<in> S \<and> updateDoc_error e i = None then (i, d\<lparr>order_tableNumber := v\<rparr>) else (i, d)) docs"

text \<open>How many orders of a list carry an id.\<close>

definition count_id :: "string \<Rightarrow> Order list \<Rightarrow> nat" where
  "count_id orderId os = length (filter (\<lambda>order. order_id order = Some orderId) os)"

section \<open>Sample data\<close>

text \<open>A menu item and a cart line with given id, price, quantity and selected options.\<close>

definition menu_item :: "string \<Rightarrow> number \<Rightarrow> MenuItem" where
  "menu_item i p =
     \<lparr>item_id = i, item_name = i, price = p, category = ''food'', imageUrl = None, options = None\<rparr>"

definition cart_line :: "string \<Rightarrow> number \<Rightarrow> number \<Rightarrow> SelectedOption list \<Rightarrow> CartItem" where
  "cart_line i p q selOpts = (new_line (menu_item i p) selOpts)\<lparr>quantity := q\<rparr>"

definition sample_env :: env where
  "sample_env =
     \<lparr>uuidv4 = ''device-1'', now = Finite 1700000000000, addDoc_result = Inr ''order-1'',
      getDocs_error = None, updateDoc_error = (\<lambda>i. None), updateDoc_settled = (\<lambda>i. 0)\<rparr>"

definition failing_env :: env where
  "failing_env = sample_env\<lparr>addDoc_result := Inl ''unavailable''\<rparr>"

definition large :: SelectedOption where
  "large = \<lparr>option_id = ''opt-l'', option_name = ''Large'', option_price = Finite 20\<rparr>"

definition oat :: SelectedOption where
  "oat = \<lparr>option_id = ''opt-o'', option_name = ''Oat milk'', option_price = Finite 15\<rparr>"

definition latte :: MenuItem where
  "latte = menu_item ''latte'' (Finite 100)"

definition sample_order :: "string \<Rightarrow> order_status \<Rightarrow> Order" where
  "sample_order dev st =
     \<lparr>order_id = None, deviceId = dev, order_tableNumber = NumberValue (Finite 3),
      items = [cart_line ''latte'' (Finite 100) (Finite 1) []], total = Finite 100, status = st,
      createdAt = Finite 1690000000000, paymentMethod = Some cash\<rparr>"

text \<open>A page with one line in the cart, table 5 and the device id stored.\<close>

definition sample_world :: world where
  "sample_world =
     (initial_world [''device_id'' \<mapsto> ''device-1'', ''table_number'' \<mapsto> ''5'']
        [(''doc-1'', sample_order ''device-1'' pending),
         (''doc-2'', sample_order ''device-1'' completed),
         (''doc-3'', sample_order ''device-2'' pending)])
       \<lparr>cart := [cart_line ''latte'' (Finite 100) (Finite 2) []], tableNumber := ''5'',
         showTableModal := False, isLoadingOrders := False\<rparr>"

section \<open>Known values of the number and string functions\<close>

lemma number_examples:
  "num_add (to_number (1 / 10)) (to_number (2 / 10)) \<noteq> to_number (3 / 10)"
  "Number_toString (num_add (to_number (1 / 10)) (to_number (2 / 10))) = ''0.30000000000000004''"
  "to_number (2 ^ 53 + 1) = Finite (2 ^ 53)"
  "num_mul PosInfinity (Finite 0) = NaN"
  "Number_toString (to_number (25 / 2)) = ''12.5''"
  by code_simp+

lemma string_examples:
  "parseInt ''12abc'' = Finite 12"
  "parseInt ''  -7'' = Finite (- 7)"
  "parseInt ''0x1A'' = Finite 26"
  "parseInt ''abc'' = NaN"
  "parseInt [] = NaN"
  "trim '' 5 '' = ''5''"
  "JSON_stringify [] = ''[]''"
  "QuoteJSONString [CHR ''a'', CHR 0x22, CHR 0x0A]
     = [CHR 0x22, CHR ''a'', CHR 0x5C, CHR 0x22, CHR 0x5C, CHR ''n'', CHR 0x22]"
  by code_simp+

text \<open>
  Two updates reject, the one on the later document of the snapshot first: its error is
  the one reported and logged.
\<close>

lemma first_rejection_example:
  "fst (updateTableNumberInFirestore
          (sample_env\<lparr>updateDoc_error := [''doc-1'' \<mapsto> ''late'', ''doc-4'' \<mapsto> ''early''],
                      updateDoc_settled := (\<lambda>i. if i = ''doc-4'' then 1 else 2)\<rparr>)
          ''7'' ''device-1''
          (sample_world\<lparr>orders_collection :=
             orders_collection sample_world @ [(''doc-4'', sample_order ''device-1'' pending)]\<rparr>))
     = Inl ''early''"
  by code_simp

section \<open>Exact arithmetic on small integers\<close>

lemma bit_length_nonneg: "0 \<le> bit_length n"
  by (induction n rule: bit_length.induct) (subst bit_length.simps, simp)

lemma bit_length_le: "0 < m \<Longrightarrow> m < 2 ^ k \<Longrightarrow> bit_length m \<le> int k"
proof (induction k arbitrary: m)
  case 0
  then show ?case by simp
next
  case (Suc k)
  show ?case
  proof (cases "m div 2 = 0")
    case True
    then have "bit_length m = 1"
      using Suc.prems(1) by (subst bit_length.simps, subst bit_length.simps) simp
    then show ?thesis by simp
  next
    case False
    with Suc.prems have pos: "0 < m div 2" by simp
    from Suc.prems have "m div 2 < 2 ^ k" by simp
    with pos have "bit_length (m div 2) \<le> int k" by (rule Suc.IH)
    then show ?thesis using Suc.prems(1) by (subst bit_length.simps) simp
  qed
qed

lemma round_ties_even_of_int: "round_ties_even (of_int m) = m"
  by (simp add: round_ties_even_def)

lemma ilog2_of_int_le:
  assumes "0 < n" "n < 2 ^ 53"
  shows "ilog2 (of_int n) \<le> 52"
proof -
  have "1 \<le> (of_int n :: rat)" using assms(1) by simp
  then have "ilog2 (of_int n) = bit_length n - 1" by (simp add: ilog2_def)
  moreover have "bit_length n \<le> 53" using bit_length_le [OF assms] by simp
  ultimately show ?thesis by simp
qed

text \<open>An integer below \<open>2\<^sup>5\<^sup>3\<close> in absolute value is a number, and rounding keeps it.\<close>

lemma to_number_of_int:
  assumes "\<bar>n\<bar> < 2 ^ 53"
  shows "to_number (of_int n) = Finite (of_int n)"
proof (cases "n = 0")
  case True
  then show ?thesis by (simp add: to_number_def)
next
  case False
  define a where "a = \<bar>n\<bar>"
  have a: "0 < a" "a < 2 ^ 53" using False assms by (simp_all add: a_def)
  have abs_eq: "\<bar>of_int n :: rat\<bar> = of_int a" by (simp add: a_def)
  define q where "q = max (ilog2 (of_int a) - 52) (- 1074)"
  have q: "q \<le> 0" "- 1074 \<le> q"
    using ilog2_of_int_le [OF a] by (simp_all add: q_def)
  define k where "k = nat (- q)"
  have pow: "pow2 q = 1 / 2 ^ k" using q by (auto simp: pow2_def k_def)
  have scaled: "(of_int n :: rat) / pow2 q = of_int (n * 2 ^ k)" by (simp add: pow)
  have r: "of_int (round_ties_even (of_int n / pow2 q)) * pow2 q = (of_int n :: rat)"
    unfolding scaled round_ties_even_of_int by (simp add: pow)
  have "\<not> 1024 \<le> ilog2 (of_int a)" using ilog2_of_int_le [OF a] by simp
  then show ?thesis
    using False by (simp add: to_number_def Let_def abs_eq q_def [symmetric] r)
qed

lemma num_add_int:
  "\<bar>a + b\<bar> < 2 ^ 53 \<Longrightarrow> num_add (Finite (of_int a)) (Finite (of_int b)) = Finite (of_int (a + b))"
  using to_number_of_int [of "a + b"] by simp

lemma num_mul_int:
  "\<bar>a * b\<bar> < 2 ^ 53 \<Longrightarrow> num_mul (Finite (of_int a)) (Finite (of_int b)) = Finite (of_int (a * b))"
  using to_number_of_int [of "a * b"] by simp

lemma is_integer_eq: "is_integer x \<Longrightarrow> x = Finite (of_int (int_of x))"
  by (cases x) (simp_all add: is_integer_def int_of_def)

lemma foldl_exact:
  assumes "list_all (\<lambda>item. is_integer (price item) \<and> is_integer (quantity item)) c"
    and "\<bar>a\<bar> + sum_list (map (\<lambda>item. \<bar>int_of (price item) * int_of (quantity item)\<bar>) c) < 2 ^ 53"
  shows "foldl (\<lambda>total item. num_add total (num_mul (price item) (quantity item))) (Finite (of_int a)) c
       = Finite (of_int (a + sum_list (map (\<lambda>item. int_of (price item) * int_of (quantity item)) c)))"
  using assms
proof (induction c arbitrary: a)
  case Nil
  then show ?case by simp
next
  case (Cons l c)
  define p where "p = int_of (price l)"
  define q where "q = int_of (quantity l)"
  define rest where "rest = sum_list (map (\<lambda>item. \<bar>int_of (price item) * int_of (quantity item)\<bar>) c)"
  have rest: "0 \<le> rest" unfolding rest_def by (rule sum_list_nonneg) auto
  have bound: "\<bar>a\<bar> + \<bar>p * q\<bar> + rest < 2 ^ 53"
    using Cons.prems(2) by (simp add: p_def q_def rest_def)
  have pl: "price l = Finite (of_int p)" and ql: "quantity l = Finite (of_int q)"
    using Cons.prems(1) by (simp_all add: p_def q_def is_integer_eq [symmetric])
  have m: "num_mul (price l) (quantity l) = Finite (of_int (p * q))"
    unfolding pl ql using bound rest by (intro num_mul_int) linarith
  have s: "num_add (Finite (of_int a)) (Finite (of_int (p * q))) = Finite (of_int (a + p * q))"
    using bound rest by (intro num_add_int) linarith
  have "\<bar>a + p * q\<bar> + rest < 2 ^ 53" using bound by linarith
  then have ih: "foldl (\<lambda>total item. num_add total (num_mul (price item) (quantity item)))
        (Finite (of_int (a + p * q))) c
      = Finite (of_int ((a + p * q) + sum_list (map (\<lambda>item. int_of (price item) * int_of (quantity item)) c)))"
    using Cons.prems(1) by (intro Cons.IH) (simp_all add: rest_def)
  have "foldl (\<lambda>total item. num_add total (num_mul (price item) (quantity item))) (Finite (of_int a)) (l # c)
      = foldl (\<lambda>total item. num_add total (num_mul (price item) (quantity item)))
          (num_add (Finite (of_int a)) (num_mul (price l) (quantity l))) c"
    by simp
  also have "\<dots> = foldl (\<lambda>total item. num_add total (num_mul (price item) (quantity item)))
          (Finite (of_int (a + p * q))) c"
    by (simp only: m s)
  also note ih
  finally show ?case by (simp add: p_def q_def add.assoc)
qed

lemma sum_list_map_mset:
  fixes f :: "'a \<Rightarrow> int"
  assumes "mset xs = mset ys"
  shows "sum_list (map f xs) = sum_list (map f ys)"
proof -
  have "sum_mset (mset (map f xs)) = sum_mset (mset (map f ys))"
    using assms by (simp only: mset_map)
  then show ?thesis by (simp only: sum_mset_sum_list)
qed

lemma cartTotal_exact:
  "exact_cart c \<Longrightarrow>
     cartTotal c = Finite (of_int (sum_list (map (\<lambda>item. int_of (price item) * int_of (quantity item)) c)))"
  using foldl_exact [of c 0] by (simp add: exact_cart_def cartTotal_def)

lemma exact_cart_mset:
  assumes "mset c' = mset c" "exact_cart c"
  shows "exact_cart c'"
proof -
  have "set c' = set c" using assms(1) by (rule mset_eq_setD)
  moreover have "sum_list (map (\<lambda>item. \<bar>int_of (price item) * int_of (quantity item)\<bar>) c')
      = sum_list (map (\<lambda>item. \<bar>int_of (price item) * int_of (quantity item)\<bar>) c)"
    using assms(1) by (rule sum_list_map_mset)
  ultimately show ?thesis using assms(2) by (simp add: exact_cart_def list_all_iff)
qed

section \<open>The cart total\<close>

lemma cartTotal_foldl_map:
  "cartTotal c = foldl num_add (Finite 0) (map (\<lambda>item. num_mul (price item) (quantity item)) c)"
  by (simp add: cartTotal_def foldl_map)

text \<open>
  Claim C1: \<open>computeTotal\<close> is the sum over the cart lines of
  \<open>(item.price + sum of option.price over selectedOptions) * quantity\<close>, so that option
  prices contribute to the total. The page looks up the price of every selected option
  and keeps it in the cart line and in the order it stores, but \<open>cartTotal\<close> adds
  \<open>item.price * item.quantity\<close> only. One latte at 100 with the option Large at 20 totals
  100 where the formula gives 120, two with Large and Oat milk total 200 where it gives
  270, and the order submitted from such a cart carries the total without the options.
\<close>

theorem cartTotal_drops_option_prices:
  "cartTotal [cart_line ''latte'' (Finite 100) (Finite 1) [large]] = Finite 100 \<and>
   spec_computeTotal [cart_line ''latte'' (Finite 100) (Finite 1) [large]] = Finite 120 \<and>
   cartTotal [cart_line ''latte'' (Finite 100) (Finite 1) [large]]
     \<noteq> spec_computeTotal [cart_line ''latte'' (Finite 100) (Finite 1) [large]] \<and>
   cartTotal [cart_line ''latte'' (Finite 100) (Finite 2) [large, oat]] = Finite 200 \<and>
   spec_computeTotal [cart_line ''latte'' (Finite 100) (Finite 2) [large, oat]] = Finite 270 \<and>
   total (newOrder sample_env ''device-1''
            (sample_world\<lparr>cart := [cart_line ''latte'' (Finite 100) (Finite 1) [large]]\<rparr>))
     = Finite 100 \<and>
   map (map option_price \<circ> selectedOptions)
     (items (newOrder sample_env ''device-1''
               (sample_world\<lparr>cart := [cart_line ''latte'' (Finite 100) (Finite 1) [large]]\<rparr>)))
     = [[Finite 20]]"
proof -
  have "cartTotal [cart_line ''latte'' (Finite 100) (Finite 1) [large]] = Finite 100"
    and "spec_computeTotal [cart_line ''latte'' (Finite 100) (Finite 1) [large]] = Finite 120"
    and "cartTotal [cart_line ''latte'' (Finite 100) (Finite 2) [large, oat]] = Finite 200"
    and "spec_computeTotal [cart_line ''latte'' (Finite 100) (Finite 2) [large, oat]] = Finite 270"
    by code_simp+
  then show ?thesis
    by (simp add: newOrder_def cart_line_def new_line_def large_def)
qed

text \<open>
  How far the code and the formula of the specification are apart: the code's total is
  the sum of \<open>item.price * quantity\<close> and is the same whatever options the lines carry,
  and on a cart with no selected options it is the total of the formula.
\<close>

lemma cartTotal_ignores_options:
  "cartTotal c = foldl num_add (Finite 0) (map (\<lambda>item. num_mul (price item) (quantity item)) c) \<and>
   cartTotal (map (\<lambda>item. item\<lparr>selectedOptions := f item\<rparr>) c) = cartTotal c"
  by (simp add: cartTotal_foldl_map comp_def)

lemma num_add_zero: "is_number x \<Longrightarrow> num_add x (Finite 0) = x"
  by (cases x) (simp_all add: is_number_def)

lemma cartTotal_without_options:
  assumes "list_all (\<lambda>item. selectedOptions item = [] \<and> is_number (price item)) c"
  shows "cartTotal c = spec_computeTotal c"
proof -
  have same: "map spec_line_total c = map (\<lambda>item. num_mul (price item) (quantity item)) c"
    using assms by (induction c) (simp_all add: spec_line_total_def num_add_zero)
  show ?thesis
    unfolding cartTotal_foldl_map spec_computeTotal_def same ..
qed

text \<open>The totals of three lines at 0.1, 0.2 and 0.3, as the page would print them.\<close>

lemma cartTotal_order_example:
  "Number_toString (cartTotal [cart_line ''a'' (to_number (1 / 10)) (Finite 1) [],
                               cart_line ''b'' (to_number (2 / 10)) (Finite 1) [],
                               cart_line ''c'' (to_number (3 / 10)) (Finite 1) []])
     = ''0.6000000000000001''"
  "Number_toString (cartTotal [cart_line ''c'' (to_number (3 / 10)) (Finite 1) [],
                               cart_line ''b'' (to_number (2 / 10)) (Finite 1) [],
                               cart_line ''a'' (to_number (1 / 10)) (Finite 1) []])
     = ''0.6''"
  by code_simp+

text \<open>
  Claim C9, as the specification states it: the total of a permuted cart equals the total
  of the cart. Addition of numbers rounds, so the order of the lines matters: three lines
  at 0.1, 0.2 and 0.3 total \<^verbatim>\<open>0.6000000000000001\<close> in this order and \<^verbatim>\<open>0.6\<close> in the
  reverse order.
\<close>

theorem cartTotal_permutation_counterexample:
  "mset [cart_line ''c'' (to_number (3 / 10)) (Finite 1) [],
         cart_line ''b'' (to_number (2 / 10)) (Finite 1) [],
         cart_line ''a'' (to_number (1 / 10)) (Finite 1) []]
   = mset [cart_line ''a'' (to_number (1 / 10)) (Finite 1) [],
           cart_line ''b'' (to_number (2 / 10)) (Finite 1) [],
           cart_line ''c'' (to_number (3 / 10)) (Finite 1) []]
   \<and> cartTotal [cart_line ''c'' (to_number (3 / 10)) (Finite 1) [],
         cart_line ''b'' (to_number (2 / 10)) (Finite 1) [],
         cart_line ''a'' (to_number (1 / 10)) (Finite 1) []]
   \<noteq> cartTotal [cart_line ''a'' (to_number (1 / 10)) (Finite 1) [],
           cart_line ''b'' (to_number (2 / 10)) (Finite 1) [],
           cart_line ''c'' (to_number (3 / 10)) (Finite 1) []]"
proof
  show "mset [cart_line ''c'' (to_number (3 / 10)) (Finite 1) [],
         cart_line ''b'' (to_number (2 / 10)) (Finite 1) [],
         cart_line ''a'' (to_number (1 / 10)) (Finite 1) []]
   = mset [cart_line ''a'' (to_number (1 / 10)) (Finite 1) [],
           cart_line ''b'' (to_number (2 / 10)) (Finite 1) [],
           cart_line ''c'' (to_number (3 / 10)) (Finite 1) []]"
    by (simp add: add_mset_commute)
  show "cartTotal [cart_line ''c'' (to_number (3 / 10)) (Finite 1) [],
         cart_line ''b'' (to_number (2 / 10)) (Finite 1) [],
         cart_line ''a'' (to_number (1 / 10)) (Finite 1) []]
   \<noteq> cartTotal [cart_line ''a'' (to_number (1 / 10)) (Finite 1) [],
           cart_line ''b'' (to_number (2 / 10)) (Finite 1) [],
           cart_line ''c'' (to_number (3 / 10)) (Finite 1) []]"
    by code_simp
qed

text \<open>
  Claim C9, amended: for every cart whose prices and quantities are integers and whose
  absolute line totals sum to less than \<open>2\<^sup>5\<^sup>3\<close>, the total of every permutation of the
  cart equals the total of the cart.
\<close>

theorem cartTotal_permutation_exact:
  assumes "exact_cart c" "mset c' = mset c"
  shows "cartTotal c' = cartTotal c"
proof -
  have "sum_list (map (\<lambda>item. int_of (price item) * int_of (quantity item)) c')
      = sum_list (map (\<lambda>item. int_of (price item) * int_of (quantity item)) c)"
    using assms(2) by (rule sum_list_map_mset)
  then show ?thesis
    using cartTotal_exact [OF assms(1)] cartTotal_exact [OF exact_cart_mset [OF assms(2) assms(1)]]
    by simp
qed

theorem cartTotal_permutation_exact_witness:
  "exact_cart [cart_line ''a'' (Finite 100) (Finite 2) [], cart_line ''b'' (Finite 250) (Finite 1) []] \<and>
   mset [cart_line ''b'' (Finite 250) (Finite 1) [], cart_line ''a'' (Finite 100) (Finite 2) []]
     = mset [cart_line ''a'' (Finite 100) (Finite 2) [], cart_line ''b'' (Finite 250) (Finite 1) []] \<and>
   cartTotal [cart_line ''b'' (Finite 250) (Finite 1) [], cart_line ''a'' (Finite 100) (Finite 2) []]
     = cartTotal [cart_line ''a'' (Finite 100) (Finite 2) [], cart_line ''b'' (Finite 250) (Finite 1) []]"
proof -
  have exact: "exact_cart [cart_line ''a'' (Finite 100) (Finite 2) [], cart_line ''b'' (Finite 250) (Finite 1) []]"
    by code_simp
  have perm: "mset [cart_line ''b'' (Finite 250) (Finite 1) [], cart_line ''a'' (Finite 100) (Finite 2) []]
     = mset [cart_line ''a'' (Finite 100) (Finite 2) [], cart_line ''b'' (Finite 250) (Finite 1) []]"
    by (simp add: add_mset_commute)
  show ?thesis
    using cartTotal_permutation_exact [OF exact perm] exact perm by simp
qed

section \<open>Cart lines\<close>

lemma find_same_line:
  "find P xs = None \<longleftrightarrow> \<not> list_ex P xs"
  by (auto simp: find_None_iff list_ex_iff)

lemma handlePlaceOrder_existing:
  "list_ex (same_line (item_id item) so) c \<Longrightarrow>
   handlePlaceOrder item so c =
     map (\<lambda>cartItem. if same_line (item_id item) so cartItem
            then cartItem\<lparr>quantity := num_add (quantity cartItem) (Finite 1)\<rparr> else cartItem) c"
  by (cases "find (same_line (item_id item) so) c")
     (simp_all add: handlePlaceOrder_def find_same_line)

lemma handlePlaceOrder_new:
  "\<not> list_ex (same_line (item_id item) so) c \<Longrightarrow> handlePlaceOrder item so c = c @ [new_line item so]"
  using find_same_line [of "same_line (item_id item) so" c] by (simp add: handlePlaceOrder_def)

lemma same_line_new_line: "same_line (item_id item) so (new_line item so)"
  by (simp add: same_line_def new_line_def)

lemma same_line_new_line_iff:
  "same_line (item_id item) so' (new_line item so) \<longleftrightarrow> JSON_stringify so = JSON_stringify so'"
  by (simp add: same_line_def new_line_def)

lemma one_plus_one: "to_number 2 = Finite 2"
  using to_number_of_int [of 2] by simp

lemma handlePlaceOrder_twice:
  assumes "\<not> list_ex (same_line (item_id item) so) c"
  shows "handlePlaceOrder item so (handlePlaceOrder item so c) = c @ [(new_line item so)\<lparr>quantity := Finite 2\<rparr>]"
proof -
  have first: "handlePlaceOrder item so c = c @ [new_line item so]"
    using assms by (rule handlePlaceOrder_new)
  have ex: "list_ex (same_line (item_id item) so) (c @ [new_line item so])"
    by (simp add: list_ex_iff same_line_new_line)
  have keep: "map (\<lambda>cartItem. if same_line (item_id item) so cartItem
            then cartItem\<lparr>quantity := num_add (quantity cartItem) (Finite 1)\<rparr> else cartItem) c = c"
    using assms by (induction c) (auto simp: list_ex_iff)
  have q: "quantity (new_line item so) = Finite 1" by (simp add: new_line_def)
  show ?thesis
    unfolding first handlePlaceOrder_existing [OF ex]
    by (simp add: keep same_line_new_line q one_plus_one)
qed

lemma handlePlaceOrder_other_options:
  assumes "\<not> list_ex (same_line (item_id item) so) c"
    and "\<not> list_ex (same_line (item_id item) so') c"
    and "JSON_stringify so \<noteq> JSON_stringify so'"
  shows "handlePlaceOrder item so' (handlePlaceOrder item so c) = c @ [new_line item so, new_line item so']"
proof -
  have first: "handlePlaceOrder item so c = c @ [new_line item so]"
    using assms(1) by (rule handlePlaceOrder_new)
  have "\<not> list_ex (same_line (item_id item) so') (c @ [new_line item so])"
    using assms(2,3) by (simp add: list_ex_iff same_line_new_line_iff)
  then show ?thesis unfolding first by (simp add: handlePlaceOrder_new)
qed

lemma same_line_key: "same_line i so l \<longleftrightarrow> line_key l = (i, JSON_stringify so)"
  by (auto simp: same_line_def line_key_def)

lemma line_key_quantity: "line_key (l\<lparr>quantity := q\<rparr>) = line_key l"
  by (simp add: line_key_def)

lemma handlePlaceOrder_keys:
  assumes "distinct (map line_key c)"
  shows "distinct (map line_key (handlePlaceOrder item so c))"
proof (cases "list_ex (same_line (item_id item) so) c")
  case True
  have "map line_key (handlePlaceOrder item so c) = map line_key c"
    unfolding handlePlaceOrder_existing [OF True] by (induction c) (simp_all add: line_key_quantity)
  then show ?thesis using assms by simp
next
  case False
  then have "line_key (new_line item so) \<notin> set (map line_key c)"
    by (auto simp: list_ex_iff same_line_key line_key_def new_line_def)
  then show ?thesis using assms by (simp add: handlePlaceOrder_new [OF False])
qed

lemma handleUpdateQuantity_keys:
  assumes "distinct (map line_key c)"
  shows "distinct (map line_key (handleUpdateQuantity itemId newQuantity so c))"
proof (cases "num_lt newQuantity (Finite 1)")
  case True
  then show ?thesis using assms by (simp add: handleUpdateQuantity_def distinct_map_filter)
next
  case False
  have "map line_key (map (\<lambda>item. if same_line itemId so item then item\<lparr>quantity := newQuantity\<rparr> else item) c)
      = map line_key c"
    by (induction c) (simp_all add: line_key_quantity)
  then show ?thesis
    by (simp only: handleUpdateQuantity_def False if_False assms)
qed

lemma one_matching_line:
  assumes "distinct (map line_key c)"
  shows "length (filter (same_line i so) c) \<le> 1"
proof -
  have "same_line i so = (\<lambda>l. line_key l = (i, JSON_stringify so))"
    by (rule ext) (rule same_line_key)
  then have "filter (same_line i so) c = filter (\<lambda>l. line_key l = (i, JSON_stringify so)) c"
    by simp
  moreover have "length (filter (\<lambda>l. f l = k) xs) \<le> 1" if "distinct (map f xs)" for f :: "CartItem \<Rightarrow> string \<times> string" and k xs
    using that by (induction xs) (auto simp: filter_empty_conv image_iff)
  ultimately show ?thesis using assms by simp
qed

text \<open>
  Claim C2: \<open>handlePlaceOrder\<close> with an item and options whose key (item id, serialized
  options) equals that of a line of the cart adds no line and increments the quantity of
  the matching line by 1, every other line staying as it is; with a key that no line has
  it appends a new line with quantity 1. So the same item with the same options added
  twice is one line with quantity 2, and the same item with options that serialize
  differently, such as the same options in another order, is two lines. The increment is
  the addition of numbers, which adds exactly 1 to an integer quantity below \<open>2\<^sup>5\<^sup>3\<close>. Carts
  in which no two lines have the same key stay so, and in such a cart at most one line
  matches.
\<close>

theorem handlePlaceOrder_reconciles:
  "(list_ex (same_line (item_id item) so) c \<longrightarrow>
      length (handlePlaceOrder item so c) = length c \<and>
      (\<forall>k < length c.
         handlePlaceOrder item so c ! k =
           (if same_line (item_id item) so (c ! k)
            then (c ! k)\<lparr>quantity := num_add (quantity (c ! k)) (Finite 1)\<rparr>
            else c ! k)))
   \<and> (\<not> list_ex (same_line (item_id item) so) c \<longrightarrow>
        handlePlaceOrder item so c = c @ [new_line item so] \<and>
        quantity (new_line item so) = Finite 1 \<and>
        handlePlaceOrder item so (handlePlaceOrder item so c)
          = c @ [(new_line item so)\<lparr>quantity := Finite 2\<rparr>])
   \<and> (\<not> list_ex (same_line (item_id item) so) c \<and>
       \<not> list_ex (same_line (item_id item) so') c \<and>
       JSON_stringify so \<noteq> JSON_stringify so' \<longrightarrow>
        handlePlaceOrder item so' (handlePlaceOrder item so c)
          = c @ [new_line item so, new_line item so'])
   \<and> (\<bar>q + 1\<bar> < 2 ^ 53 \<longrightarrow> num_add (Finite (of_int q)) (Finite 1) = Finite (of_int (q + 1)))
   \<and> (distinct (map line_key c) \<longrightarrow>
        distinct (map line_key (handlePlaceOrder item so c)) \<and>
        length (filter (same_line (item_id item) so) c) \<le> 1)"
proof (intro conjI impI)
  assume "\<bar>q + 1\<bar> < 2 ^ 53"
  then show "num_add (Finite (of_int q)) (Finite 1) = Finite (of_int (q + 1))"
    using num_add_int [of q 1] by simp
next
  assume "distinct (map line_key c)"
  then show "distinct (map line_key (handlePlaceOrder item so c))"
    and "length (filter (same_line (item_id item) so) c) \<le> 1"
    by (rule handlePlaceOrder_keys, rule one_matching_line)
next
  assume "list_ex (same_line (item_id item) so) c"
  then show "length (handlePlaceOrder item so c) = length c"
    and "\<forall>k < length c.
         handlePlaceOrder item so c ! k =
           (if same_line (item_id item) so (c ! k)
            then (c ! k)\<lparr>quantity := num_add (quantity (c ! k)) (Finite 1)\<rparr>
            else c ! k)"
    by (simp_all add: handlePlaceOrder_existing)
next
  assume "\<not> list_ex (same_line (item_id item) so) c"
  then show "handlePlaceOrder item so c = c @ [new_line item so]"
    and "handlePlaceOrder item so (handlePlaceOrder item so c)
          = c @ [(new_line item so)\<lparr>quantity := Finite 2\<rparr>]"
    by (rule handlePlaceOrder_new, rule handlePlaceOrder_twice)
next
  show "quantity (new_line item so) = Finite 1" by (simp add: new_line_def)
next
  assume "\<not> list_ex (same_line (item_id item) so) c \<and>
       \<not> list_ex (same_line (item_id item) so') c \<and>
       JSON_stringify so \<noteq> JSON_stringify so'"
  then show "handlePlaceOrder item so' (handlePlaceOrder item so c)
          = c @ [new_line item so, new_line item so']"
    by (simp add: handlePlaceOrder_other_options)
qed

theorem handlePlaceOrder_reconciles_witness:
  "list_ex (same_line (item_id latte) [large, oat]) [new_line latte [], new_line latte [large, oat]] \<and>
   length (handlePlaceOrder latte [large, oat] [new_line latte [], new_line latte [large, oat]]) = 2 \<and>
   handlePlaceOrder latte [large, oat] [new_line latte [], new_line latte [large, oat]] ! 0
     = new_line latte [] \<and>
   handlePlaceOrder latte [large, oat] [new_line latte [], new_line latte [large, oat]] ! 1
     = (new_line latte [large, oat])\<lparr>quantity := Finite 2\<rparr> \<and>
   \<not> list_ex (same_line (item_id latte) [large, oat]) [new_line latte []] \<and>
   handlePlaceOrder latte [large, oat] (handlePlaceOrder latte [large, oat] [new_line latte []])
     = [new_line latte [], (new_line latte [large, oat])\<lparr>quantity := Finite 2\<rparr>] \<and>
   \<not> list_ex (same_line (item_id latte) [oat, large]) [new_line latte []] \<and>
   JSON_stringify [large, oat] \<noteq> JSON_stringify [oat, large] \<and>
   handlePlaceOrder latte [oat, large] (handlePlaceOrder latte [large, oat] [new_line latte []])
     = [new_line latte [], new_line latte [large, oat], new_line latte [oat, large]] \<and>
   \<bar>1 + 1 :: int\<bar> < 2 ^ 53 \<and> num_add (Finite 1) (Finite 1) = Finite 2 \<and>
   distinct (map line_key [new_line latte [], new_line latte [large, oat]]) \<and>
   distinct (map line_key
     (handlePlaceOrder latte [large, oat] [new_line latte [], new_line latte [large, oat]])) \<and>
   length (filter (same_line (item_id latte) [large, oat])
     [new_line latte [], new_line latte [large, oat]]) \<le> 1"
proof -
  have differ: "JSON_stringify [large, oat] \<noteq> JSON_stringify [oat, large]"
    and differ1: "JSON_stringify [] \<noteq> JSON_stringify [large, oat]"
    and differ2: "JSON_stringify [] \<noteq> JSON_stringify [oat, large]"
    by code_simp+
  have present: "list_ex (same_line (item_id latte) [large, oat]) [new_line latte [], new_line latte [large, oat]]"
    by (simp add: same_line_new_line)
  have absent: "\<not> list_ex (same_line (item_id latte) [large, oat]) [new_line latte []]"
    "\<not> list_ex (same_line (item_id latte) [oat, large]) [new_line latte []]"
    using differ1 differ2 by (simp_all add: same_line_new_line_iff)
  have first: "\<not> same_line (item_id latte) [large, oat] (new_line latte [])"
    using differ1 by (simp add: same_line_new_line_iff)
  have two: "quantity (new_line latte [large, oat]) = Finite 1" by (simp add: new_line_def)
  note all = handlePlaceOrder_reconciles
    [of latte "[large, oat]" "[new_line latte [], new_line latte [large, oat]]" "[oat, large]" 1]
  note hit = all [THEN conjunct1, THEN mp, OF present]
  note miss = handlePlaceOrder_reconciles
    [of latte "[large, oat]" "[new_line latte []]" "[oat, large]" 1, THEN conjunct2]
  have small: "\<bar>1 + 1 :: int\<bar> < 2 ^ 53" by simp
  have sum: "num_add (Finite 1) (Finite 1) = Finite 2"
    using all [THEN conjunct2, THEN conjunct2, THEN conjunct2, THEN conjunct1, THEN mp, OF small]
    by simp
  have keys: "distinct (map line_key [new_line latte [], new_line latte [large, oat]])"
    using differ1 by (simp add: line_key_def new_line_def)
  note inv = all [THEN conjunct2, THEN conjunct2, THEN conjunct2, THEN conjunct2, THEN mp, OF keys]
  have len: "length (handlePlaceOrder latte [large, oat] [new_line latte [], new_line latte [large, oat]]) = 2"
    using hit by simp
  have n0: "handlePlaceOrder latte [large, oat] [new_line latte [], new_line latte [large, oat]] ! 0
     = new_line latte []"
    using hit [THEN conjunct2, THEN spec, of 0] first by simp
  have n1: "handlePlaceOrder latte [large, oat] [new_line latte [], new_line latte [large, oat]] ! 1
     = (new_line latte [large, oat])\<lparr>quantity := Finite 2\<rparr>"
    using hit [THEN conjunct2, THEN spec, of 1] by (simp add: same_line_new_line two one_plus_one)
  have twice: "handlePlaceOrder latte [large, oat] (handlePlaceOrder latte [large, oat] [new_line latte []])
     = [new_line latte [], (new_line latte [large, oat])\<lparr>quantity := Finite 2\<rparr>]"
    using miss [THEN conjunct1, THEN mp, OF absent(1), THEN conjunct2, THEN conjunct2] by simp
  have "handlePlaceOrder latte [oat, large] (handlePlaceOrder latte [large, oat] [new_line latte []])
     = [new_line latte []] @ [new_line latte [large, oat], new_line latte [oat, large]]"
    using miss [THEN conjunct2, THEN conjunct1, THEN mp] absent differ by blast
  then have other: "handlePlaceOrder latte [oat, large] (handlePlaceOrder latte [large, oat] [new_line latte []])
     = [new_line latte [], new_line latte [large, oat], new_line latte [oat, large]]"
    by simp
  show ?thesis
    using present len n0 n1 absent twice differ other small sum keys inv by blast
qed

text \<open>
  Claim C5: \<open>handleUpdateQuantity\<close> with a new quantity below 1 removes the lines whose
  key (item id, serialized options) matches and keeps every other line, in order; with a
  new quantity that is not below 1 it sets the quantity of the matching line and changes
  nothing else; and when no line matches, the cart is unchanged. Carts in which no two
  lines have the same key stay so, and in such a cart at most one line matches.
\<close>

theorem handleUpdateQuantity_effect:
  "(num_lt newQuantity (Finite 1) \<longrightarrow>
      handleUpdateQuantity itemId newQuantity so c = filter (\<lambda>item. \<not> same_line itemId so item) c)
   \<and> (\<not> num_lt newQuantity (Finite 1) \<longrightarrow>
        length (handleUpdateQuantity itemId newQuantity so c) = length c \<and>
        (\<forall>k < length c.
           handleUpdateQuantity itemId newQuantity so c ! k =
             (if same_line itemId so (c ! k) then (c ! k)\<lparr>quantity := newQuantity\<rparr> else c ! k)))
   \<and> (\<not> list_ex (same_line itemId so) c \<longrightarrow> handleUpdateQuantity itemId newQuantity so c = c)
   \<and> (distinct (map line_key c) \<longrightarrow>
        distinct (map line_key (handleUpdateQuantity itemId newQuantity so c)) \<and>
        length (filter (same_line itemId so) c) \<le> 1)"
proof (intro conjI impI)
  assume "distinct (map line_key c)"
  then show "distinct (map line_key (handleUpdateQuantity itemId newQuantity so c))"
    and "length (filter (same_line itemId so) c) \<le> 1"
    by (rule handleUpdateQuantity_keys, rule one_matching_line)
next
  assume "\<not> list_ex (same_line itemId so) c"
  then have none: "\<forall>item \<in> set c. \<not> same_line itemId so item" by (simp add: list_ex_iff)
  then have "filter (\<lambda>item. \<not> same_line itemId so item) c = c" by simp
  moreover have "map (\<lambda>item. if same_line itemId so item then item\<lparr>quantity := newQuantity\<rparr> else item) c = c"
    using none by (induction c) auto
  ultimately show "handleUpdateQuantity itemId newQuantity so c = c"
    by (simp add: handleUpdateQuantity_def)
qed (simp_all add: handleUpdateQuantity_def)

theorem handleUpdateQuantity_effect_witness:
  "num_lt (Finite 0) (Finite 1) \<and>
   handleUpdateQuantity ''latte'' (Finite 0) [large] [new_line latte [], new_line latte [large]]
     = [new_line latte []] \<and>
   \<not> num_lt (Finite 3) (Finite 1) \<and>
   length (handleUpdateQuantity ''latte'' (Finite 3) [large] [new_line latte [], new_line latte [large]]) = 2 \<and>
   handleUpdateQuantity ''latte'' (Finite 3) [large] [new_line latte [], new_line latte [large]] ! 1
     = (new_line latte [large])\<lparr>quantity := Finite 3\<rparr> \<and>
   \<not> list_ex (same_line ''mocha'' [large]) [new_line latte [], new_line latte [large]] \<and>
   handleUpdateQuantity ''mocha'' (Finite 0) [large] [new_line latte [], new_line latte [large]]
     = [new_line latte [], new_line latte [large]] \<and>
   distinct (map line_key [new_line latte [], new_line latte [large]]) \<and>
   distinct (map line_key
     (handleUpdateQuantity ''latte'' (Finite 0) [large] [new_line latte [], new_line latte [large]])) \<and>
   length (filter (same_line ''latte'' [large]) [new_line latte [], new_line latte [large]]) \<le> 1"
proof -
  have differ: "JSON_stringify [] \<noteq> JSON_stringify [large]" by code_simp
  have keys: "distinct (map line_key [new_line latte [], new_line latte [large]])"
    using differ by (simp add: line_key_def new_line_def)
  note inv = handleUpdateQuantity_effect
    [of "Finite 0" "''latte''" "[large]" "[new_line latte [], new_line latte [large]]",
      THEN conjunct2, THEN conjunct2, THEN conjunct2, THEN mp, OF keys]
  have ident: "item_id latte = ''latte''" by (simp add: latte_def menu_item_def)
  have m0: "\<not> same_line ''latte'' [large] (new_line latte [])"
    using differ same_line_new_line_iff [of latte "[large]" "[]"] by (simp add: ident)
  have m1: "same_line ''latte'' [large] (new_line latte [large])"
    using same_line_new_line [of latte "[large]"] by (simp add: ident)
  have other: "\<not> list_ex (same_line ''mocha'' [large]) [new_line latte [], new_line latte [large]]"
    by (simp add: same_line_def new_line_def ident)
  have below: "num_lt (Finite 0) (Finite 1)" and above: "\<not> num_lt (Finite 3) (Finite 1)"
    by simp_all
  have r0: "handleUpdateQuantity ''latte'' (Finite 0) [large] [new_line latte [], new_line latte [large]]
     = [new_line latte []]"
    using handleUpdateQuantity_effect
      [of "Finite 0" "''latte''" "[large]" "[new_line latte [], new_line latte [large]]",
        THEN conjunct1, THEN mp, OF below]
      m0 m1 by simp
  note set = handleUpdateQuantity_effect
    [of "Finite 3" "''latte''" "[large]" "[new_line latte [], new_line latte [large]]",
      THEN conjunct2, THEN conjunct1, THEN mp, OF above]
  have len: "length (handleUpdateQuantity ''latte'' (Finite 3) [large] [new_line latte [], new_line latte [large]]) = 2"
    using set by simp
  have r1: "handleUpdateQuantity ''latte'' (Finite 3) [large] [new_line latte [], new_line latte [large]] ! 1
     = (new_line latte [large])\<lparr>quantity := Finite 3\<rparr>"
    using set [THEN conjunct2, THEN spec, of 1] m1 by simp
  have r2: "handleUpdateQuantity ''mocha'' (Finite 0) [large] [new_line latte [], new_line latte [large]]
     = [new_line latte [], new_line latte [large]]"
    using handleUpdateQuantity_effect
      [of "Finite 0" "''mocha''" "[large]" "[new_line latte [], new_line latte [large]]",
        THEN conjunct2, THEN conjunct2, THEN conjunct1, THEN mp, OF other] .
  show ?thesis using below r0 above len r1 other r2 keys inv by blast
qed

section \<open>Table number\<close>

text \<open>
  Claim C6, as the specification states it: the URL parameter is taken, and written to
  storage, whenever it is present. With the parameter present but empty
  (\<^verbatim>\<open>?table=\<close>) and \<^verbatim>\<open>3\<close> stored, the effect takes the stored \<^verbatim>\<open>3\<close> and leaves the
  storage as it is, where the rule of the specification gives the empty parameter.
\<close>

theorem tableEffect_counterexample:
  "(tableNumber (tableEffect (Some []) (initial_world [''table_number'' \<mapsto> ''3''] [])),
    localStorage (tableEffect (Some []) (initial_world [''table_number'' \<mapsto> ''3''] [])) ''table_number'')
   = (''3'', Some ''3'') \<and>
   (tableNumber (tableEffect (Some []) (initial_world [''table_number'' \<mapsto> ''3''] [])),
    localStorage (tableEffect (Some []) (initial_world [''table_number'' \<mapsto> ''3''] [])) ''table_number'')
   \<noteq> spec_resolveInitialTable (Some []) (Some ''3'')"
  by (simp add: tableEffect_def initial_world_def spec_resolveInitialTable_def)

text \<open>
  Claim C6, amended: a URL parameter that is present and not empty becomes the table
  number, is written to storage and closes the modal; otherwise a stored value that is
  present and not empty becomes the table number and closes the modal, the storage
  staying as it is; otherwise nothing changes, so that from the initial state the table
  is unset and the modal open. With URL parameter \<^verbatim>\<open>5\<close> and stored \<^verbatim>\<open>3\<close> the table is
  \<^verbatim>\<open>5\<close> and the storage holds \<^verbatim>\<open>5\<close>.
\<close>

theorem tableEffect_precedence:
  "(u \<noteq> [] \<longrightarrow>
      tableEffect (Some u) w =
        w\<lparr>tableNumber := u, localStorage := (localStorage w)(''table_number'' \<mapsto> u),
          showTableModal := False\<rparr>)
   \<and> (tableFromUrl \<in> {None, Some []} \<and> localStorage w ''table_number'' = Some s \<and> s \<noteq> [] \<longrightarrow>
        tableEffect tableFromUrl w = w\<lparr>tableNumber := s, showTableModal := False\<rparr>)
   \<and> (tableFromUrl \<in> {None, Some []} \<and> localStorage w ''table_number'' \<in> {None, Some []} \<longrightarrow>
        tableEffect tableFromUrl w = w)"
  by (auto simp: tableEffect_def)

theorem tableEffect_precedence_witness:
  "tableNumber (tableEffect (Some ''5'') (initial_world [''table_number'' \<mapsto> ''3''] [])) = ''5''
   \<and> localStorage (tableEffect (Some ''5'') (initial_world [''table_number'' \<mapsto> ''3''] [])) ''table_number'' = Some ''5''
   \<and> showTableModal (tableEffect (Some ''5'') (initial_world [''table_number'' \<mapsto> ''3''] [])) = False
   \<and> tableNumber (tableEffect None (initial_world [''table_number'' \<mapsto> ''3''] [])) = ''3''
   \<and> localStorage (tableEffect None (initial_world [''table_number'' \<mapsto> ''3''] [])) ''table_number'' = Some ''3''
   \<and> tableNumber (tableEffect (Some []) (initial_world [''table_number'' \<mapsto> ''3''] [])) = ''3''
   \<and> tableNumber (tableEffect None (initial_world Map.empty [])) = []
   \<and> showTableModal (tableEffect None (initial_world Map.empty [])) = True"
  using tableEffect_precedence [of "''5''" "initial_world [''table_number'' \<mapsto> ''3''] []" None "''3''"]
    tableEffect_precedence [of "''5''" "initial_world [''table_number'' \<mapsto> ''3''] []" "Some []" "''3''"]
    tableEffect_precedence [of "''5''" "initial_world Map.empty []" None "''3''"]
  by (simp add: initial_world_def)

lemma apply_update_updated: "apply_update e i v (updated_docs e S v docs) = updated_docs e (insert i S) v docs"
  by (cases "updateDoc_error e i") (auto simp: apply_update_def updated_docs_def)

lemma foldl_apply_update:
  "foldl (\<lambda>docs i. apply_update e i v docs) (updated_docs e S v docs) ids = updated_docs e (S \<union> set ids) v docs"
  by (induction ids arbitrary: S) (simp_all add: apply_update_updated)

lemma updated_docs_empty: "updated_docs e {} v docs = docs"
  by (simp add: updated_docs_def)

lemma query_ids:
  assumes "distinct (map fst docs)" "(i, d) \<in> set docs"
  shows "i \<in> set (map fst (pendingOrdersQuery dev docs)) \<longleftrightarrow> deviceId d = dev \<and> status d = pending"
proof
  assume "i \<in> set (map fst (pendingOrdersQuery dev docs))"
  then obtain d' where d': "(i, d') \<in> set docs" "deviceId d' = dev \<and> status d' = pending"
    by (auto simp: pendingOrdersQuery_def)
  have "d' = d" using assms d'(1) by (meson eq_key_imp_eq_value)
  then show "deviceId d = dev \<and> status d = pending" using d'(2) by simp
next
  assume "deviceId d = dev \<and> status d = pending"
  then have "(i, d) \<in> set (pendingOrdersQuery dev docs)"
    using assms(2) by (simp add: pendingOrdersQuery_def)
  then show "i \<in> set (map fst (pendingOrdersQuery dev docs))" by force
qed

lemma update_writes:
  "getDocs_error e = None \<Longrightarrow>
   firestore_writes (snd (updateTableNumberInFirestore e t dev w))
     = firestore_writes w @ map (\<lambda>(i, d). UpdateDoc i (StringValue t)) (pendingOrdersQuery dev (orders_collection w))"
  by (simp add: updateTableNumberInFirestore_def Let_def comp_def case_prod_beta split: list.splits)

lemma update_collection:
  "getDocs_error e = None \<Longrightarrow>
   orders_collection (snd (updateTableNumberInFirestore e t dev w))
     = updated_docs e (set (map fst (pendingOrdersQuery dev (orders_collection w)))) (StringValue t) (orders_collection w)"
  using foldl_apply_update [of e "StringValue t" "{}" "orders_collection w"]
  by (simp add: updateTableNumberInFirestore_def Let_def updated_docs_empty split: list.splits)

lemma filter_key_distinct:
  "distinct (map fst xs) \<Longrightarrow> (i, d) \<in> set xs \<Longrightarrow>
     filter (\<lambda>(j, d'). j = i \<and> P j d') xs = (if P i d then [(i, d)] else [])"
proof (induction xs)
  case Nil
  then show ?case by simp
next
  case (Cons x xs)
  obtain j d' where x: "x = (j, d')" by (cases x)
  show ?case
  proof (cases "j = i")
    case True
    with Cons.prems x have "d' = d" and "\<forall>(k, d'') \<in> set xs. k \<noteq> i" by force+
    then have "filter (\<lambda>(j, d'). j = i \<and> P j d') xs = []" by (auto simp: filter_empty_conv)
    then show ?thesis using x True \<open>d' = d\<close> by simp
  next
    case False
    with Cons x show ?thesis by auto
  qed
qed

lemma updated_docs_query:
  assumes "distinct (map fst docs)"
  shows "updated_docs e (set (map fst (pendingOrdersQuery dev docs))) v docs
       = map (\<lambda>(i, d). if deviceId d = dev \<and> status d = pending \<and> updateDoc_error e i = None
                         then (i, d\<lparr>order_tableNumber := v\<rparr>) else (i, d)) docs"
  unfolding updated_docs_def
  by (rule map_cong [OF refl]) (use query_ids [OF assms] in auto)

text \<open>
  Claim C7: when the query of \<open>updateTableNumberInFirestore\<close> returns, the calls issued
  on the collection are one \<^verbatim>\<open>updateDoc\<close> for each document of the device with status
  pending, in the order of the snapshot, each with the new table number as the only
  field; document ids being distinct, a document of the collection is the target of
  exactly one call when it is pending and of the device, and of none otherwise. The
  updated documents differ from the old ones in the table number only, and all other
  documents are as they were.
\<close>

theorem updateTableNumberInFirestore_updates:
  assumes "getDocs_error e = None" and "distinct (map fst (orders_collection w))"
  shows "firestore_writes (snd (updateTableNumberInFirestore e t dev w))
           = firestore_writes w
             @ map (\<lambda>(i, d). UpdateDoc i (StringValue t))
                 (filter (\<lambda>(i, d). deviceId d = dev \<and> status d = pending) (orders_collection w))
         \<and> (\<forall>(i, d) \<in> set (orders_collection w).
               length (filter (writes_to i)
                  (drop (length (firestore_writes w))
                     (firestore_writes (snd (updateTableNumberInFirestore e t dev w)))))
                 = (if deviceId d = dev \<and> status d = pending then 1 else 0))
         \<and> orders_collection (snd (updateTableNumberInFirestore e t dev w))
             = map (\<lambda>(i, d). if deviceId d = dev \<and> status d = pending \<and> updateDoc_error e i = None
                               then (i, d\<lparr>order_tableNumber := StringValue t\<rparr>) else (i, d))
                 (orders_collection w)"
proof (intro conjI)
  show writes: "firestore_writes (snd (updateTableNumberInFirestore e t dev w))
           = firestore_writes w
             @ map (\<lambda>(i, d). UpdateDoc i (StringValue t))
                 (filter (\<lambda>(i, d). deviceId d = dev \<and> status d = pending) (orders_collection w))"
    using update_writes [OF assms(1)] by (simp add: pendingOrdersQuery_def)
  show "\<forall>(i, d) \<in> set (orders_collection w).
               length (filter (writes_to i)
                  (drop (length (firestore_writes w))
                     (firestore_writes (snd (updateTableNumberInFirestore e t dev w)))))
                 = (if deviceId d = dev \<and> status d = pending then 1 else 0)"
  proof (clarify)
    fix i d
    assume mem: "(i, d) \<in> set (orders_collection w)"
    have "filter (writes_to i)
            (map (\<lambda>(i, d). UpdateDoc i (StringValue t))
               (filter (\<lambda>(i, d). deviceId d = dev \<and> status d = pending) (orders_collection w)))
        = map (\<lambda>(i, d). UpdateDoc i (StringValue t))
            (filter (\<lambda>(j, d'). j = i \<and> (deviceId d' = dev \<and> status d' = pending)) (orders_collection w))"
      by (simp add: filter_map comp_def split_def writes_to_def conj_commute)
    also have "\<dots> = map (\<lambda>(i, d). UpdateDoc i (StringValue t))
            (if deviceId d = dev \<and> status d = pending then [(i, d)] else [])"
      using filter_key_distinct [OF assms(2) mem, of "\<lambda>j d'. deviceId d' = dev \<and> status d' = pending"]
      by simp
    finally show "length (filter (writes_to i)
                  (drop (length (firestore_writes w))
                     (firestore_writes (snd (updateTableNumberInFirestore e t dev w)))))
                 = (if deviceId d = dev \<and> status d = pending then 1 else 0)"
      by (simp add: writes)
  qed
  show "orders_collection (snd (updateTableNumberInFirestore e t dev w))
             = map (\<lambda>(i, d). if deviceId d = dev \<and> status d = pending \<and> updateDoc_error e i = None
                               then (i, d\<lparr>order_tableNumber := StringValue t\<rparr>) else (i, d))
                 (orders_collection w)"
    using update_collection [OF assms(1)] updated_docs_query [OF assms(2)] by simp
qed

theorem updateTableNumberInFirestore_updates_witness:
  "getDocs_error sample_env = None \<and> distinct (map fst (orders_collection sample_world)) \<and>
   firestore_writes (snd (updateTableNumberInFirestore sample_env ''7'' ''device-1'' sample_world))
     = [UpdateDoc ''doc-1'' (StringValue ''7'')] \<and>
   orders_collection (snd (updateTableNumberInFirestore sample_env ''7'' ''device-1'' sample_world))
     = [(''doc-1'', (sample_order ''device-1'' pending)\<lparr>order_tableNumber := StringValue ''7''\<rparr>),
        (''doc-2'', sample_order ''device-1'' completed),
        (''doc-3'', sample_order ''device-2'' pending)]"
proof -
  have ok: "getDocs_error sample_env = None" by (simp add: sample_env_def)
  have ids: "distinct (map fst (orders_collection sample_world))"
    by (simp add: sample_world_def initial_world_def)
  note upd = updateTableNumberInFirestore_updates [OF ok ids, of "''7''" "''device-1''"]
  have w: "firestore_writes (snd (updateTableNumberInFirestore sample_env ''7'' ''device-1'' sample_world))
     = [UpdateDoc ''doc-1'' (StringValue ''7'')]"
    using upd [THEN conjunct1]
    by (simp add: sample_world_def initial_world_def sample_order_def)
  have c: "orders_collection (snd (updateTableNumberInFirestore sample_env ''7'' ''device-1'' sample_world))
     = [(''doc-1'', (sample_order ''device-1'' pending)\<lparr>order_tableNumber := StringValue ''7''\<rparr>),
        (''doc-2'', sample_order ''device-1'' completed),
        (''doc-3'', sample_order ''device-2'' pending)]"
    using upd [THEN conjunct2, THEN conjunct2]
    by (simp add: sample_world_def initial_world_def sample_order_def sample_env_def)
  show ?thesis using ok ids w c by blast
qed

section \<open>Order submission\<close>

lemma getDeviceId_frame:
  "cart (snd (getDeviceId e w)) = cart w"
  "orders (snd (getDeviceId e w)) = orders w"
  "isSubmitting (snd (getDeviceId e w)) = isSubmitting w"
  "tableNumber (snd (getDeviceId e w)) = tableNumber w"
  "orders_collection (snd (getDeviceId e w)) = orders_collection w"
  "firestore_writes (snd (getDeviceId e w)) = firestore_writes w"
  "console_error (snd (getDeviceId e w)) = console_error w"
  by (simp_all add: getDeviceId_def Let_def split: option.splits)

lemma device_of_flag: "fst (getDeviceId e (w\<lparr>isSubmitting := b\<rparr>)) = device_of e w"
  by (simp add: getDeviceId_def device_of_def Let_def split: option.splits)

lemma handleOrderNow_resolved:
  assumes "cart w \<noteq> []" "tableNumber w \<noteq> []" "\<not> isSubmitting w" "addDoc_result e = Inr orderId"
  shows "handleOrderNow e between w =
           (between (submitted e orderId w))
             \<lparr>orders := merge_order (newOrder e (device_of e w) w) orderId (orders (between (submitted e orderId w))),
               cart := [], isSubmitting := False\<rparr>"
  using assms
  by (simp add: handleOrderNow_def saveOrder_def submitted_def Let_def case_prod_beta device_of_flag)

lemma handleOrderNow_rejected:
  assumes "cart w \<noteq> []" "tableNumber w \<noteq> []" "\<not> isSubmitting w" "addDoc_result e = Inl err"
  shows "handleOrderNow e between w =
           (between (rejected e w))
             \<lparr>console_error := console_error (between (rejected e w))
                 @ [(''Error saving order: '', err), (''Error placing order:'', err)],
               isSubmitting := False\<rparr>"
  using assms
  by (simp add: handleOrderNow_def saveOrder_def rejected_def Let_def case_prod_beta device_of_flag)

lemma count_id_merge:
  "count_id orderId os \<le> 1 \<Longrightarrow> count_id orderId (merge_order ord orderId os) = 1"
  by (auto simp: merge_order_def count_id_def list_ex_iff filter_empty_conv le_Suc_eq)

lemma count_id_snapshot:
  assumes "\<forall>(i, d) \<in> set docs. order_id d = None"
  shows "count_id orderId (orders (onSnapshot_next docs w)) = length (filter (\<lambda>(i, d). i = orderId) docs)"
  using assms by (induction docs) (auto simp: onSnapshot_next_def count_id_def)

lemma submitted_frame:
  "firestore_writes (submitted e orderId w) = firestore_writes w @ [AddDoc (newOrder e (device_of e w) w)]"
  "orders_collection (submitted e orderId w) = orders_collection w @ [(orderId, newOrder e (device_of e w) w)]"
  "orders (submitted e orderId w) = orders w"
  "cart (submitted e orderId w) = cart w"
  by (simp_all add: submitted_def case_prod_beta device_of_flag getDeviceId_frame)

lemma rejected_frame:
  "firestore_writes (rejected e w) = firestore_writes w @ [AddDoc (newOrder e (device_of e w) w)]"
  "orders_collection (rejected e w) = orders_collection w"
  "orders (rejected e w) = orders w"
  "cart (rejected e w) = cart w"
  "console_error (rejected e w) = console_error w"
  by (simp_all add: rejected_def case_prod_beta device_of_flag getDeviceId_frame)

text \<open>
  While a submission waits for \<^verbatim>\<open>addDoc\<close>, the flag is set, and a second
  \<open>handleOrderNow\<close> does nothing.
\<close>

lemma single_flight:
  "isSubmitting (submitted e orderId w)"
  "handleOrderNow e' between' (submitted e orderId w) = submitted e orderId w"
  "isSubmitting (rejected e w)"
  "handleOrderNow e' between' (rejected e w) = rejected e w"
  by (simp_all add: submitted_def rejected_def case_prod_beta getDeviceId_frame handleOrderNow_def)

text \<open>
  Claim C8: when the cart is empty, or the table number is unset, or a submission is in
  flight, \<open>handleOrderNow\<close> returns the state it was called in: cart, order list and
  submission flag are as before, no call on the collection is issued and no document is
  stored.
\<close>

theorem handleOrderNow_guard:
  "cart w = [] \<or> tableNumber w = [] \<or> isSubmitting w \<Longrightarrow>
     handleOrderNow e between w = w \<and>
     firestore_writes (handleOrderNow e between w) = firestore_writes w \<and>
     orders_collection (handleOrderNow e between w) = orders_collection w"
  by (auto simp: handleOrderNow_def)

theorem handleOrderNow_guard_witness:
  "cart (sample_world\<lparr>cart := []\<rparr>) = [] \<and>
   handleOrderNow sample_env id (sample_world\<lparr>cart := []\<rparr>) = sample_world\<lparr>cart := []\<rparr> \<and>
   tableNumber (sample_world\<lparr>tableNumber := []\<rparr>) = [] \<and>
   handleOrderNow sample_env id (sample_world\<lparr>tableNumber := []\<rparr>) = sample_world\<lparr>tableNumber := []\<rparr> \<and>
   isSubmitting (sample_world\<lparr>isSubmitting := True\<rparr>) \<and>
   handleOrderNow sample_env id (sample_world\<lparr>isSubmitting := True\<rparr>) = sample_world\<lparr>isSubmitting := True\<rparr>"
  using handleOrderNow_guard [of "sample_world\<lparr>cart := []\<rparr>" sample_env id]
    handleOrderNow_guard [of "sample_world\<lparr>tableNumber := []\<rparr>" sample_env id]
    handleOrderNow_guard [of "sample_world\<lparr>isSubmitting := True\<rparr>" sample_env id]
  by simp

text \<open>
  Claim C3: with a cart that is not empty, a table number set and no submission in
  flight, a \<open>handleOrderNow\<close> whose \<^verbatim>\<open>addDoc\<close> resolves with an id issues one \<^verbatim>\<open>addDoc\<close>
  and stores under that id an order with status pending, creation time now, payment
  method cash, the cart as items and its total; afterwards the cart is empty and the
  flag is reset. The order list at the end is the list that the handler finds when it
  resumes, with the new order put in front only if no order of that list has the id. So
  the order is in the list exactly once: when nothing ran in between and the list had at
  most one order of that id, when a snapshot holding the new document was delivered
  first, and after any later snapshot that holds it once.
\<close>

theorem handleOrderNow_success:
  assumes "cart w \<noteq> []" "tableNumber w \<noteq> []" "\<not> isSubmitting w" "addDoc_result e = Inr orderId"
  shows "firestore_writes (handleOrderNow e id w)
           = firestore_writes w @ [AddDoc (newOrder e (device_of e w) w)]
       \<and> orders_collection (handleOrderNow e id w)
           = orders_collection w @ [(orderId, newOrder e (device_of e w) w)]
       \<and> status (newOrder e (device_of e w) w) = pending
       \<and> createdAt (newOrder e (device_of e w) w) = now e
       \<and> paymentMethod (newOrder e (device_of e w) w) = Some cash
       \<and> items (newOrder e (device_of e w) w) = cart w
       \<and> total (newOrder e (device_of e w) w) = cartTotal (cart w)
       \<and> cart (handleOrderNow e between w) = []
       \<and> isSubmitting (handleOrderNow e between w) = False
       \<and> orders (handleOrderNow e between w)
           = (if list_ex (\<lambda>order. order_id order = Some orderId) (orders (between (submitted e orderId w)))
              then orders (between (submitted e orderId w))
              else (newOrder e (device_of e w) w)\<lparr>order_id := Some orderId\<rparr>
                     # orders (between (submitted e orderId w)))
       \<and> (count_id orderId (orders w) \<le> 1 \<longrightarrow> count_id orderId (orders (handleOrderNow e id w)) = 1)
       \<and> ((\<forall>(i, d) \<in> set docs. order_id d = None) \<and> length (filter (\<lambda>(i, d). i = orderId) docs) = 1 \<longrightarrow>
            count_id orderId (orders (handleOrderNow e (onSnapshot_next docs) w)) = 1 \<and>
            count_id orderId (orders (onSnapshot_next docs (handleOrderNow e between w))) = 1)"
proof -
  note run = handleOrderNow_resolved [OF assms]
  have "count_id orderId (orders (handleOrderNow e (onSnapshot_next docs) w)) = 1"
    if "\<forall>(i, d) \<in> set docs. order_id d = None" "length (filter (\<lambda>(i, d). i = orderId) docs) = 1"
  proof -
    have "count_id orderId (orders (onSnapshot_next docs (submitted e orderId w))) = 1"
      using count_id_snapshot [OF that(1)] that(2) by simp
    then show ?thesis by (simp add: run count_id_merge)
  qed
  moreover have "count_id orderId (orders (onSnapshot_next docs (handleOrderNow e between w))) = 1"
    if "\<forall>(i, d) \<in> set docs. order_id d = None" "length (filter (\<lambda>(i, d). i = orderId) docs) = 1"
    using count_id_snapshot [OF that(1)] that(2) by simp
  moreover have "count_id orderId (orders (handleOrderNow e id w)) = 1" if "count_id orderId (orders w) \<le> 1"
    using that by (simp add: run submitted_frame count_id_merge)
  ultimately show ?thesis
    by (simp add: run submitted_frame merge_order_def newOrder_def)
qed

theorem handleOrderNow_success_witness:
  "cart sample_world \<noteq> [] \<and> tableNumber sample_world \<noteq> [] \<and> \<not> isSubmitting sample_world \<and>
   addDoc_result sample_env = Inr ''order-1'' \<and>
   cart (handleOrderNow sample_env id sample_world) = [] \<and>
   last (orders_collection (handleOrderNow sample_env id sample_world))
     = (''order-1'', newOrder sample_env ''device-1'' sample_world) \<and>
   count_id ''order-1'' (orders sample_world) \<le> 1 \<and>
   count_id ''order-1'' (orders (handleOrderNow sample_env id sample_world)) = 1 \<and>
   order_id (newOrder sample_env ''device-1'' sample_world) = None \<and>
   length (filter (\<lambda>(i, d). i = ''order-1'') [(''order-1'', newOrder sample_env ''device-1'' sample_world)]) = 1 \<and>
   count_id ''order-1''
     (orders (handleOrderNow sample_env
        (onSnapshot_next [(''order-1'', newOrder sample_env ''device-1'' sample_world)]) sample_world)) = 1"
proof -
  have g: "cart sample_world \<noteq> []" "tableNumber sample_world \<noteq> []" "\<not> isSubmitting sample_world"
    by (simp_all add: sample_world_def initial_world_def)
  have r: "addDoc_result sample_env = Inr ''order-1''" by (simp add: sample_env_def)
  have dev: "device_of sample_env sample_world = ''device-1''"
    by (simp add: device_of_def getDeviceId_def sample_world_def initial_world_def)
  have none: "count_id ''order-1'' (orders sample_world) \<le> 1"
    by (simp add: count_id_def sample_world_def initial_world_def)
  have snap: "\<forall>(i, d) \<in> set [(''order-1'', newOrder sample_env ''device-1'' sample_world)]. order_id d = None"
    "length (filter (\<lambda>(i, d). i = ''order-1'') [(''order-1'', newOrder sample_env ''device-1'' sample_world)]) = 1"
    by (simp_all add: newOrder_def)
  note s = handleOrderNow_success
    [OF g r, where docs = "[(''order-1'', newOrder sample_env ''device-1'' sample_world)]"
      and between = id]
  have c: "cart (handleOrderNow sample_env id sample_world) = []"
    using s by blast
  have st: "last (orders_collection (handleOrderNow sample_env id sample_world))
     = (''order-1'', newOrder sample_env ''device-1'' sample_world)"
    using s [THEN conjunct2, THEN conjunct1] by (simp add: dev)
  have once: "count_id ''order-1'' (orders (handleOrderNow sample_env id sample_world)) = 1"
    using s none by blast
  have first: "count_id ''order-1''
     (orders (handleOrderNow sample_env
        (onSnapshot_next [(''order-1'', newOrder sample_env ''device-1'' sample_world)]) sample_world)) = 1"
    using s snap by blast
  have fresh: "order_id (newOrder sample_env ''device-1'' sample_world) = None"
    by (simp add: newOrder_def)
  show ?thesis using g r c st none once fresh snap(2) first by blast
qed

text \<open>
  Claim C4: when \<^verbatim>\<open>addDoc\<close> rejects, \<open>handleOrderNow\<close> ends in the state that it finds when
  it resumes, with the error logged by \<open>saveOrder\<close> and by the handler and the
  submission flag reset: it changes neither the cart nor the order list, and no document
  is stored. When nothing ran in between, cart, order list and collection are those of
  the call.
\<close>

theorem handleOrderNow_failure:
  assumes "cart w \<noteq> []" "tableNumber w \<noteq> []" "\<not> isSubmitting w" "addDoc_result e = Inl err"
  shows "handleOrderNow e between w =
           (between (rejected e w))
             \<lparr>console_error := console_error (between (rejected e w))
                 @ [(''Error saving order: '', err), (''Error placing order:'', err)],
               isSubmitting := False\<rparr>
       \<and> cart (handleOrderNow e between w) = cart (between (rejected e w))
       \<and> orders (handleOrderNow e between w) = orders (between (rejected e w))
       \<and> isSubmitting (handleOrderNow e between w) = False
       \<and> cart (handleOrderNow e id w) = cart w
       \<and> orders (handleOrderNow e id w) = orders w
       \<and> orders_collection (handleOrderNow e id w) = orders_collection w
       \<and> console_error (handleOrderNow e id w)
           = console_error w @ [(''Error saving order: '', err), (''Error placing order:'', err)]"
  by (simp add: handleOrderNow_rejected [OF assms] rejected_frame)

theorem handleOrderNow_failure_witness:
  "cart sample_world \<noteq> [] \<and> tableNumber sample_world \<noteq> [] \<and> \<not> isSubmitting sample_world \<and>
   addDoc_result failing_env = Inl ''unavailable'' \<and>
   cart (handleOrderNow failing_env id sample_world) = cart sample_world \<and>
   orders (handleOrderNow failing_env id sample_world) = orders sample_world \<and>
   orders_collection (handleOrderNow failing_env id sample_world) = orders_collection sample_world \<and>
   console_error (handleOrderNow failing_env id sample_world)
     = [(''Error saving order: '', ''unavailable''), (''Error placing order:'', ''unavailable'')] \<and>
   isSubmitting (handleOrderNow failing_env id sample_world) = False \<and>
   cart (handleOrderNow sample_env id (handleOrderNow failing_env id sample_world)) = []"
proof -
  have g: "cart sample_world \<noteq> []" "tableNumber sample_world \<noteq> []" "\<not> isSubmitting sample_world"
    by (simp_all add: sample_world_def initial_world_def)
  have r: "addDoc_result failing_env = Inl ''unavailable''" by (simp add: failing_env_def)
  note f = handleOrderNow_failure [OF g r, of id]
  have kept: "cart (handleOrderNow failing_env id sample_world) = cart sample_world"
    "orders (handleOrderNow failing_env id sample_world) = orders sample_world"
    "orders_collection (handleOrderNow failing_env id sample_world) = orders_collection sample_world"
    "isSubmitting (handleOrderNow failing_env id sample_world) = False"
    using f by blast+
  have "console_error (handleOrderNow failing_env id sample_world)
     = console_error sample_world @ [(''Error saving order: '', ''unavailable''), (''Error placing order:'', ''unavailable'')]"
    using f by blast
  then have log: "console_error (handleOrderNow failing_env id sample_world)
     = [(''Error saving order: '', ''unavailable''), (''Error placing order:'', ''unavailable'')]"
    by (simp add: sample_world_def initial_world_def)
  have "tableNumber (handleOrderNow failing_env id sample_world) = tableNumber sample_world"
    by (simp add: handleOrderNow_rejected [OF g r] rejected_def case_prod_beta getDeviceId_frame)
  then have after: "cart (handleOrderNow failing_env id sample_world) \<noteq> []"
    "tableNumber (handleOrderNow failing_env id sample_world) \<noteq> []"
    "\<not> isSubmitting (handleOrderNow failing_env id sample_world)"
    using kept g by simp_all
  have "addDoc_result sample_env = Inr ''order-1''" by (simp add: sample_env_def)
  then have retry: "cart (handleOrderNow sample_env id (handleOrderNow failing_env id sample_world)) = []"
    using handleOrderNow_resolved [OF after, of sample_env "''order-1''" id] by simp
  show ?thesis using g r kept log retry by blast
qed

section \<open>The type of the stored table number\<close>

lemma to_number_not_NaN: "to_number x \<noteq> NaN"
  by (simp add: to_number_def Let_def)

lemma zero_is_digit: "is_radix_digit 10 CHR ''0''"
  by (simp add: is_radix_digit_def digit_value_def code_unit_def)

lemma parseInt_no_digit:
  assumes "\<not> begins_with_digit t"
  shows "parseInt t = NaN"
proof -
  let ?S = "dropWhile is_white_space t"
  let ?S1 = "case ?S of c # rest \<Rightarrow> if c = CHR ''+'' \<or> c = CHR ''-'' then rest else ?S | [] \<Rightarrow> ?S"
  let ?P = "case ?S1 of a # b # _ \<Rightarrow> a = CHR ''0'' \<and> (b = CHR ''x'' \<or> b = CHR ''X'') | _ \<Rightarrow> False"
  have "begins_with_digit t = (case ?S1 of c # _ \<Rightarrow> is_radix_digit 10 c | [] \<Rightarrow> False)"
    unfolding begins_with_digit_def Let_def ..
  with assms have none: "case ?S1 of c # _ \<Rightarrow> \<not> is_radix_digit 10 c | [] \<Rightarrow> True"
    by (cases ?S1) simp_all
  have prefix: "?P = False"
    using none zero_is_digit by (cases ?S1) (auto split: list.splits)
  have digits: "takeWhile (is_radix_digit 10) ?S1 = []"
    using none by (cases ?S1) simp_all
  have "parseInt t =
      (if takeWhile (is_radix_digit (if ?P then 16 else 10)) (if ?P then drop 2 ?S1 else ?S1) = [] then NaN
       else to_number (of_int ((case ?S of c # _ \<Rightarrow> if c = CHR ''-'' then - 1 else 1 | [] \<Rightarrow> 1) *
              foldl (\<lambda>acc c. acc * (if ?P then 16 else 10) + (case digit_value c of Some d \<Rightarrow> d | None \<Rightarrow> 0)) 0
                (takeWhile (is_radix_digit (if ?P then 16 else 10)) (if ?P then drop 2 ?S1 else ?S1)))))"
    unfolding parseInt_def Let_def ..
  also have "\<dots> = NaN"
    unfolding prefix if_False digits by simp
  finally show ?thesis .
qed

lemma handleOrderNow_writes:
  assumes "cart w \<noteq> []" "tableNumber w \<noteq> []" "\<not> isSubmitting w"
  shows "firestore_writes (handleOrderNow e id w) = firestore_writes w @ [AddDoc (newOrder e (device_of e w) w)]"
proof (cases "addDoc_result e")
  case (Inl err)
  then show ?thesis by (simp add: handleOrderNow_rejected [OF assms] rejected_frame)
next
  case (Inr orderId)
  then show ?thesis by (simp add: handleOrderNow_resolved [OF assms] submitted_frame)
qed

text \<open>
  Claim C10, as stated: for a table string that is not numeric and not empty, the
  submitted order stores \<^verbatim>\<open>NaN\<close>. \<^verbatim>\<open>parseInt\<close> reads the leading digits and ignores the
  rest: with the table string \<^verbatim>\<open>5a\<close> the order is stored with table number 5.
\<close>

theorem tableNumber_nan_counterexample:
  "\<not> spec_numeric ''5a'' \<and> ''5a'' \<noteq> [] \<and> parseInt ''5a'' = Finite 5 \<and>
   order_tableNumber (snd (last (orders_collection
       (handleOrderNow sample_env id (sample_world\<lparr>tableNumber := ''5a''\<rparr>)))))
     = NumberValue (Finite 5) \<and>
   order_tableNumber (snd (last (orders_collection
       (handleOrderNow sample_env id (sample_world\<lparr>tableNumber := ''5a''\<rparr>)))))
     \<noteq> NumberValue NaN"
proof -
  have n: "\<not> spec_numeric ''5a''" and p: "parseInt ''5a'' = Finite 5" by code_simp+
  have g: "cart (sample_world\<lparr>tableNumber := ''5a''\<rparr>) \<noteq> []"
    "tableNumber (sample_world\<lparr>tableNumber := ''5a''\<rparr>) \<noteq> []"
    "\<not> isSubmitting (sample_world\<lparr>tableNumber := ''5a''\<rparr>)"
    by (simp_all add: sample_world_def initial_world_def)
  have r: "addDoc_result sample_env = Inr ''order-1''" by (simp add: sample_env_def)
  have "order_tableNumber (snd (last (orders_collection
       (handleOrderNow sample_env id (sample_world\<lparr>tableNumber := ''5a''\<rparr>)))))
     = NumberValue (parseInt ''5a'')"
    by (simp add: handleOrderNow_resolved [OF g r] submitted_frame newOrder_def)
  then show ?thesis using n p by simp
qed

text \<open>
  Claim C10, amended: for every table string \<open>t\<close>, each update that
  \<open>updateTableNumberInFirestore\<close> issues writes the string \<open>t\<close> itself as table number,
  whereas the order that \<open>handleOrderNow\<close> submits stores the number \<open>parseInt(t)\<close>; a
  number is never a string, so the two store the table number under different types.
  When \<open>t\<close>, after leading white space and one sign, does not begin with a decimal digit
  (as in \<^verbatim>\<open>abc\<close>), the submitted order stores \<^verbatim>\<open>NaN\<close>, while the update writes \<open>t\<close>
  unchanged.
\<close>

theorem tableNumber_types:
  "(getDocs_error e = None \<longrightarrow>
      (\<forall>wr \<in> set (drop (length (firestore_writes w))
                      (firestore_writes (snd (updateTableNumberInFirestore e t dev w)))).
         \<exists>i. wr = UpdateDoc i (StringValue t)))
   \<and> (cart w \<noteq> [] \<and> tableNumber w = t \<and> t \<noteq> [] \<and> \<not> isSubmitting w \<longrightarrow>
        firestore_writes (handleOrderNow e id w)
          = firestore_writes w @ [AddDoc (newOrder e (device_of e w) w)] \<and>
        order_tableNumber (newOrder e (device_of e w) w) = NumberValue (parseInt t))
   \<and> NumberValue (parseInt t) \<noteq> StringValue t
   \<and> (\<not> begins_with_digit t \<longrightarrow> parseInt t = NaN)"
proof (intro conjI impI)
  assume "getDocs_error e = None"
  then show "\<forall>wr \<in> set (drop (length (firestore_writes w))
                      (firestore_writes (snd (updateTableNumberInFirestore e t dev w)))).
         \<exists>i. wr = UpdateDoc i (StringValue t)"
    by (auto simp: update_writes)
next
  assume g: "cart w \<noteq> [] \<and> tableNumber w = t \<and> t \<noteq> [] \<and> \<not> isSubmitting w"
  then show "firestore_writes (handleOrderNow e id w)
          = firestore_writes w @ [AddDoc (newOrder e (device_of e w) w)]"
    by (intro handleOrderNow_writes) simp_all
  show "order_tableNumber (newOrder e (device_of e w) w) = NumberValue (parseInt t)"
    using g by (simp add: newOrder_def)
next
  assume "\<not> begins_with_digit t"
  then show "parseInt t = NaN" by (rule parseInt_no_digit)
qed simp

theorem tableNumber_types_witness:
  "getDocs_error sample_env = None \<and>
   firestore_writes (snd (updateTableNumberInFirestore sample_env ''abc'' ''device-1'' sample_world))
     = [UpdateDoc ''doc-1'' (StringValue ''abc'')] \<and>
   cart (sample_world\<lparr>tableNumber := ''abc''\<rparr>) \<noteq> [] \<and> ''abc'' \<noteq> [] \<and>
   \<not> isSubmitting (sample_world\<lparr>tableNumber := ''abc''\<rparr>) \<and>
   \<not> begins_with_digit ''abc'' \<and>
   firestore_writes (handleOrderNow sample_env id (sample_world\<lparr>tableNumber := ''abc''\<rparr>))
     = [AddDoc (newOrder sample_env ''device-1'' (sample_world\<lparr>tableNumber := ''abc''\<rparr>))] \<and>
   order_tableNumber (newOrder sample_env ''device-1'' (sample_world\<lparr>tableNumber := ''abc''\<rparr>))
     = NumberValue NaN"
proof -
  have ok: "getDocs_error sample_env = None" by (simp add: sample_env_def)
  have g: "cart (sample_world\<lparr>tableNumber := ''abc''\<rparr>) \<noteq> []"
    "tableNumber (sample_world\<lparr>tableNumber := ''abc''\<rparr>) = ''abc''" "''abc'' \<noteq> []"
    "\<not> isSubmitting (sample_world\<lparr>tableNumber := ''abc''\<rparr>)"
    by (simp_all add: sample_world_def initial_world_def)
  have nd: "\<not> begins_with_digit ''abc''" by code_simp
  have dev: "device_of sample_env (sample_world\<lparr>tableNumber := ''abc''\<rparr>) = ''device-1''"
    by (simp add: device_of_def getDeviceId_def sample_world_def initial_world_def)
  have before: "firestore_writes sample_world = []"
    "firestore_writes (sample_world\<lparr>tableNumber := ''abc''\<rparr>) = []"
    by (simp_all add: sample_world_def initial_world_def)
  have upd: "firestore_writes (snd (updateTableNumberInFirestore sample_env ''abc'' ''device-1'' sample_world))
     = [UpdateDoc ''doc-1'' (StringValue ''abc'')]"
    by (simp add: update_writes [OF ok] pendingOrdersQuery_def sample_world_def initial_world_def
        sample_order_def)
  note t = tableNumber_types
    [of sample_env "sample_world\<lparr>tableNumber := ''abc''\<rparr>" "''abc''" "''device-1''"]
  have sub: "firestore_writes (handleOrderNow sample_env id (sample_world\<lparr>tableNumber := ''abc''\<rparr>))
     = [AddDoc (newOrder sample_env ''device-1'' (sample_world\<lparr>tableNumber := ''abc''\<rparr>))]"
    "order_tableNumber (newOrder sample_env ''device-1'' (sample_world\<lparr>tableNumber := ''abc''\<rparr>))
     = NumberValue (parseInt ''abc'')"
    using t g by (simp_all add: dev before)
  have nan: "parseInt ''abc'' = NaN" using t nd by blast
  show ?thesis using ok upd g nd sub nan by simp
qed

end
